theory Spec2Isabelle
  imports Complex_Main
begin

section \<open>Rating engine: the update-elo edge function (index.ts, lines 16-210)\<close>

text \<open>
  The handler reads five tables through the service-role client and writes two of them.
  Rows are records (with the columns the modelled code reads or writes), tables are lists
  in the order the store returns them, and the handler is a function from the store to a
  response and the new store.  JavaScript numbers are
  modelled as mathematical numbers: ratings, counters and timestamps (milliseconds) are
  integers, the expected score and the actual score are reals, and \<open>Math.round\<close> is
  \<open>round\<close> (both are \<open>floor (x + 1/2)\<close>).
\<close>

datatype match_mode = Ranked | Unranked

datatype room_status = Reserved | Live | Completed | Abandoned

datatype match_result = Win | Loss | Draw

record debate_room =
  room_id :: string
  room_format :: string
  room_mode :: match_mode
  room_state :: room_status
  is_ai_opponent :: bool
  current_phase :: "string option"
  created_at :: int
  started_at :: "int option"
  ended_at :: "int option"

record result_submission =
  sub_room_id :: string
  sub_user_id :: string
  submitted_result :: match_result

record debate_participant =
  part_room_id :: string
  part_user_id :: "string option"
  part_is_ai :: bool
  part_role :: "string option"
  part_speaking_order :: "int option"
  part_connected_at :: "int option"

record profile =
  prof_id :: string
  prof_user_id :: string
  elo_by_format :: "string \<rightharpoonup> int"
  total_debates :: "int option"
  total_wins :: "int option"
  current_streak :: "int option"

record match_history_entry =
  mh_room_id :: string
  mh_user_a_id :: string
  mh_user_b_id :: string
  mh_format :: string
  mh_mode :: match_mode
  mh_winner_user_id :: "string option"
  mh_is_draw :: bool
  mh_rating_before_a :: int
  mh_rating_after_a :: int
  mh_rating_before_b :: int
  mh_rating_after_b :: int
  mh_duration_seconds :: int

datatype queue_status = Waiting | Matched | Cancelled | Expired

datatype opponent_type = Human_only | Ai_only | Human_then_ai

record queue_entry =
  qe_id :: string
  qe_user_id :: string
  qe_format :: string
  qe_mode :: match_mode
  qe_opponent_type :: opponent_type
  qe_elo :: int
  qe_status :: queue_status
  qe_joined_at :: int
  qe_last_heartbeat_at :: int
  qe_matched_at :: "int option"
  qe_room_id :: "string option"

datatype app_role = Admin | Moderator | Member

record store =
  user_roles :: "(string \<times> app_role) list"
  match_queue_entries :: "queue_entry list"
  debate_rooms :: "debate_room list"
  match_result_submissions :: "result_submission list"
  debate_participants :: "debate_participant list"
  profiles :: "profile list"
  match_history :: "match_history_entry list"

text \<open>The JSON responses of the handler: an error body with its HTTP status, a message
  body with its status, and the success body carrying the two rating changes.\<close>

datatype response =
    Json_error string nat
  | Json_message string nat
  | Elo_updated int int

text \<open>\<open>getKFactor\<close>, lines 134-138.\<close>

definition getKFactor :: "int \<Rightarrow> int" where
  "getKFactor rating = (if rating < 1200 then 40 else if rating < 2000 then 20 else 10)"

text \<open>Lines 116-117: \<open>1 / (1 + Math.pow(10, (other - own) / 400))\<close>.\<close>

definition expected_score :: "int \<Rightarrow> int \<Rightarrow> real" where
  "expected_score own other = 1 / (1 + 10 powr (real_of_int (other - own) / 400))"

text \<open>Lines 110-111: \<open>elo_by_format?.[format] || 1200\<close>; a missing entry and the
  falsy number 0 both read as 1200.\<close>

definition rating_of :: "profile \<Rightarrow> string \<Rightarrow> int" where
  "rating_of p fmt =
     (case elo_by_format p fmt of
        None \<Rightarrow> 1200
      | Some r \<Rightarrow> if r = 0 then 1200 else r)"

text \<open>\<open>x || 0\<close> on a nullable integer column.\<close>

definition or_zero :: "int option \<Rightarrow> int" where
  "or_zero v = (case v of None \<Rightarrow> 0 | Some n \<Rightarrow> n)"

text \<open>Lines 96-104: the winner is the submitter of the first \<open>win\<close> submission;
  \<open>user_id || null\<close> turns an empty id into null.\<close>

definition winner_of :: "result_submission list \<Rightarrow> string option" where
  "winner_of submissions =
     (case find (\<lambda>s. submitted_result s = Win) submissions of
        None \<Rightarrow> None
      | Some s \<Rightarrow> if sub_user_id s = [] then None else Some (sub_user_id s))"

text \<open>Lines 120-131: the actual scores of side A and side B.\<close>

definition actual_scores :: "bool \<Rightarrow> string option \<Rightarrow> profile \<Rightarrow> real \<times> real" where
  "actual_scores isDraw winnerUserId userA =
     (if isDraw then (1 / 2, 1 / 2)
      else if winnerUserId = Some (prof_user_id userA) then (1, 0)
      else (0, 1))"

text \<open>Lines 144-145.\<close>

definition new_rating :: "int \<Rightarrow> real \<Rightarrow> real \<Rightarrow> int" where
  "new_rating rating score expected =
     round (real_of_int rating + real_of_int (getKFactor rating) * (score - expected))"

text \<open>Lines 153-171: the object passed to \<open>update\<close>, applied to a row.  Every written
  value is computed from the row read earlier (\<open>u\<close>), not from the row being overwritten.\<close>

definition set_profile_fields :: "profile \<Rightarrow> string \<Rightarrow> int \<Rightarrow> real \<Rightarrow> profile \<Rightarrow> profile" where
  "set_profile_fields u fmt newRating score p =
     p\<lparr> elo_by_format := (elo_by_format u)(fmt \<mapsto> newRating),
        total_debates := Some (or_zero (total_debates u) + 1),
        total_wins := (if score = 1 then Some (or_zero (total_wins u) + 1) else total_wins u),
        current_streak := (if score = 1 then Some (or_zero (current_streak u) + 1) else Some 0) \<rparr>"

text \<open>\<open>from('profiles').update(...).eq('id', u.id)\<close>: every row with that id is written.\<close>

definition update_profile :: "profile \<Rightarrow> string \<Rightarrow> int \<Rightarrow> real \<Rightarrow> profile list \<Rightarrow> profile list" where
  "update_profile u fmt newRating score ps =
     map (\<lambda>p. if prof_id p = prof_id u then set_profile_fields u fmt newRating score p else p) ps"

text \<open>Lines 173-176: duration in whole seconds, \<open>Math.floor\<close> of a quotient.\<close>

definition duration_seconds :: "int \<Rightarrow> debate_room \<Rightarrow> int" where
  "duration_seconds now room =
     (let startTime = (case started_at room of Some t \<Rightarrow> t | None \<Rightarrow> created_at room);
          endTime = (case ended_at room of Some t \<Rightarrow> t | None \<Rightarrow> now)
      in (endTime - startTime) div 1000)"

text \<open>Lines 95-204: what the handler does once room, submissions and the two profiles
  are loaded.\<close>

definition apply_settlement ::
  "int \<Rightarrow> store \<Rightarrow> debate_room \<Rightarrow> result_submission list \<Rightarrow> profile \<Rightarrow> profile \<Rightarrow> response \<times> store" where
  "apply_settlement now db room submissions userA userB =
     (let isDraw = list_all (\<lambda>r. r = Draw) (map submitted_result submissions);
          winnerUserId = (if isDraw then None else winner_of submissions);
          fmt = room_format room;
          ratingA = rating_of userA fmt;
          ratingB = rating_of userB fmt;
          expectedA = expected_score ratingA ratingB;
          expectedB = expected_score ratingB ratingA;
          scoreA = fst (actual_scores isDraw winnerUserId userA);
          scoreB = snd (actual_scores isDraw winnerUserId userA);
          newRatingA = new_rating ratingA scoreA expectedA;
          newRatingB = new_rating ratingB scoreB expectedB;
          ps1 = update_profile userA fmt newRatingA scoreA (profiles db);
          ps2 = update_profile userB fmt newRatingB scoreB ps1;
          entry = \<lparr> mh_room_id = room_id room,
                    mh_user_a_id = prof_user_id userA,
                    mh_user_b_id = prof_user_id userB,
                    mh_format = room_format room,
                    mh_mode = room_mode room,
                    mh_winner_user_id = winnerUserId,
                    mh_is_draw = isDraw,
                    mh_rating_before_a = ratingA,
                    mh_rating_after_a = newRatingA,
                    mh_rating_before_b = ratingB,
                    mh_rating_after_b = newRatingB,
                    mh_duration_seconds = duration_seconds now room \<rparr>
      in (Elo_updated (newRatingA - ratingA) (newRatingB - ratingB),
          db\<lparr> profiles := ps2, match_history := match_history db @ [entry] \<rparr>))"

text \<open>The consistency check of lines 60-66.\<close>

definition consistent_results :: "match_result list \<Rightarrow> bool" where
  "consistent_results results =
     ((Win \<in> set results \<and> Loss \<in> set results) \<or> list_all (\<lambda>r. r = Draw) results)"

text \<open>The four queries of lines 31-93, before \<open>single()\<close> and the length checks.
  \<open>in('user_id', userIds)\<close> never matches a null id.\<close>

definition select_room :: "store \<Rightarrow> string \<Rightarrow> debate_room list" where
  "select_room db roomId = filter (\<lambda>r. room_id r = roomId) (debate_rooms db)"

definition select_submissions :: "store \<Rightarrow> string \<Rightarrow> result_submission list" where
  "select_submissions db roomId =
     filter (\<lambda>s. sub_room_id s = roomId) (match_result_submissions db)"

definition select_participants :: "store \<Rightarrow> string \<Rightarrow> debate_participant list" where
  "select_participants db roomId =
     filter (\<lambda>p. part_room_id p = roomId \<and> \<not> part_is_ai p) (debate_participants db)"

definition select_profiles :: "store \<Rightarrow> string option list \<Rightarrow> profile list" where
  "select_profiles db userIds = filter (\<lambda>p. Some (prof_user_id p) \<in> set userIds) (profiles db)"

text \<open>The whole handler, lines 16-210.  \<open>single()\<close> on the room query fails unless exactly
  one row matches.\<close>

definition update_elo :: "int \<Rightarrow> store \<Rightarrow> string \<Rightarrow> response \<times> store" where
  "update_elo now db roomId =
     (if roomId = [] then (Json_error ''roomId required'' 400, db)
      else case select_room db roomId of
        [room] \<Rightarrow>
          if room_mode room \<noteq> Ranked \<or> is_ai_opponent room
          then (Json_message ''ELO update not required'' 200, db)
          else
            let submissions = select_submissions db roomId
            in if length submissions < 2
               then (Json_error ''Not enough result submissions'' 400, db)
               else if \<not> consistent_results (map submitted_result submissions)
               then (Json_error ''Inconsistent results'' 400, db)
               else
                 let participants = select_participants db roomId
                 in if length participants < 2
                    then (Json_error ''Participants not found'' 400, db)
                    else
                      (case select_profiles db (map part_user_id participants) of
                         userA # userB # rest \<Rightarrow>
                           apply_settlement now db room submissions userA userB
                       | _ \<Rightarrow> (Json_error ''Profiles not found'' 400, db))
      | _ \<Rightarrow> (Json_error ''Room not found'' 404, db))"

text \<open>The handler gets past every check of lines 20-93 on a ranked human-vs-human room
  with these rows loaded: \<open>userA\<close> and \<open>userB\<close> are \<open>profiles[0]\<close> and \<open>profiles[1]\<close>.\<close>

definition settles ::
  "store \<Rightarrow> string \<Rightarrow> debate_room \<Rightarrow> result_submission list \<Rightarrow> profile \<Rightarrow> profile \<Rightarrow> bool" where
  "settles db roomId room submissions userA userB \<longleftrightarrow>
     roomId \<noteq> [] \<and> select_room db roomId = [room] \<and>
     room_mode room = Ranked \<and> \<not> is_ai_opponent room \<and>
     select_submissions db roomId = submissions \<and> 2 \<le> length submissions \<and>
     consistent_results (map submitted_result submissions) \<and>
     2 \<le> length (select_participants db roomId) \<and>
     take 2 (select_profiles db (map part_user_id (select_participants db roomId)))
       = [userA, userB]"

text \<open>The profile row with a given primary key.\<close>

definition profile_by_id :: "store \<Rightarrow> string \<Rightarrow> profile option" where
  "profile_by_id db pid = find (\<lambda>p. prof_id p = pid) (profiles db)"

text \<open>The actual score a submitted result stands for.\<close>

definition actual_of_result :: "match_result \<Rightarrow> real" where
  "actual_of_result r = (case r of Win \<Rightarrow> 1 | Loss \<Rightarrow> 0 | Draw \<Rightarrow> 1 / 2)"

text \<open>A sample store: one completed ranked room between two humans rated 1200, who
  submitted the results \<open>ra\<close> and \<open>rb\<close>.\<close>

definition ex_room :: debate_room where
  "ex_room = \<lparr> room_id = ''r1'', room_format = ''LD'', room_mode = Ranked,
      room_state = Completed, is_ai_opponent = False, current_phase = None,
      created_at = 0, started_at = Some 1000, ended_at = Some 61000 \<rparr>"

definition ex_submission :: "string \<Rightarrow> match_result \<Rightarrow> result_submission" where
  "ex_submission uid r = \<lparr> sub_room_id = ''r1'', sub_user_id = uid, submitted_result = r \<rparr>"

definition ex_profile :: "string \<Rightarrow> string \<Rightarrow> profile" where
  "ex_profile pid uid = \<lparr> prof_id = pid, prof_user_id = uid,
      elo_by_format = [''LD'' \<mapsto> 1200],
      total_debates = Some 0, total_wins = Some 0, current_streak = Some 0 \<rparr>"

definition ex_store :: "match_result \<Rightarrow> match_result \<Rightarrow> store" where
  "ex_store ra rb = \<lparr> user_roles = [], match_queue_entries = [], debate_rooms = [ex_room],
      match_result_submissions = [ex_submission ''alice'' ra, ex_submission ''bob'' rb],
      debate_participants =
        [\<lparr> part_room_id = ''r1'', part_user_id = Some ''alice'', part_is_ai = False,
           part_role = Some ''proposition'', part_speaking_order = Some 1,
           part_connected_at = Some 500 \<rparr>,
         \<lparr> part_room_id = ''r1'', part_user_id = Some ''bob'', part_is_ai = False,
           part_role = Some ''opposition'', part_speaking_order = Some 2,
           part_connected_at = Some 600 \<rparr>],
      profiles = [ex_profile ''pa'' ''alice'', ex_profile ''pb'' ''bob''],
      match_history = [] \<rparr>"


text \<open>A second sample: the same room, with \<open>alice\<close> rated 1000 after seven debates, three
  wins and a streak of two, and \<open>bob\<close> rated 2200 with no counters stored and a streak of
  five; both also hold a rating of 1500 in another format.\<close>

definition ex_rated_profile ::
  "string \<Rightarrow> string \<Rightarrow> int \<Rightarrow> int option \<Rightarrow> int option \<Rightarrow> int option \<Rightarrow> profile" where
  "ex_rated_profile pid uid r td tw cs = \<lparr> prof_id = pid, prof_user_id = uid,
      elo_by_format = [''LD'' \<mapsto> r, ''BP'' \<mapsto> 1500],
      total_debates = td, total_wins = tw, current_streak = cs \<rparr>"

definition ex_alice :: profile where
  "ex_alice = ex_rated_profile ''pa'' ''alice'' 1000 (Some 7) (Some 3) (Some 2)"

definition ex_bob :: profile where
  "ex_bob = ex_rated_profile ''pb'' ''bob'' 2200 None None (Some 5)"

definition ex_rated_store :: "match_result \<Rightarrow> match_result \<Rightarrow> store" where
  "ex_rated_store ra rb = (ex_store ra rb) \<lparr> profiles := [ex_alice, ex_bob] \<rparr>"

section \<open>Queue store and AI fallback: the useMatchmaking hook (unnamed/part_000)\<close>

text \<open>
  The hook talks to the table \<open>match_queue_entries\<close>, whose partial unique index
  \<open>one_active_queue_per_user_waiting\<close> (unnamed/part_002, lines 8-11) covers \<open>user_id\<close> for
  the rows with status \<open>waiting\<close>.  Row ids and timestamps are generated by the store
  (\<open>gen_random_uuid()\<close>, \<open>now()\<close>); the model takes them as arguments.
\<close>

datatype store_error = Unique_violation | Rls_violation

record match_settings =
  ms_format :: string
  ms_mode :: match_mode
  ms_opponentType :: opponent_type

definition AI_FALLBACK_TIMEOUT :: nat where
  "AI_FALLBACK_TIMEOUT = 30000"

text \<open>The keys held by the partial index: the user ids of the waiting rows.\<close>

definition waiting_users :: "queue_entry list \<Rightarrow> string list" where
  "waiting_users q = map qe_user_id (filter (\<lambda>e. qe_status e = Waiting) q)"

definition one_active_queue_per_user_waiting :: "queue_entry list \<Rightarrow> bool" where
  "one_active_queue_per_user_waiting q \<longleftrightarrow> distinct (waiting_users q)"

text \<open>\<open>insert\<close>: a waiting row whose user already has a waiting row is rejected by the index.\<close>

definition insert_queue_entry :: "queue_entry \<Rightarrow> queue_entry list \<Rightarrow> store_error + queue_entry list" where
  "insert_queue_entry e q =
     (if qe_status e = Waiting \<and> qe_user_id e \<in> set (waiting_users q)
      then Inl Unique_violation
      else Inr (q @ [e]))"

text \<open>\<open>delete().eq('user_id', uid).eq('status', 'waiting')\<close>, lines 186-190.\<close>

definition delete_waiting_of_user :: "string \<Rightarrow> queue_entry list \<Rightarrow> queue_entry list" where
  "delete_waiting_of_user uid q = filter (\<lambda>e. \<not> (qe_user_id e = uid \<and> qe_status e = Waiting)) q"

text \<open>\<open>delete().eq('id', id).eq('status', 'waiting')\<close>, lines 262-266.\<close>

definition delete_waiting_entry :: "string \<Rightarrow> queue_entry list \<Rightarrow> queue_entry list" where
  "delete_waiting_entry eid q = filter (\<lambda>e. \<not> (qe_id e = eid \<and> qe_status e = Waiting)) q"

text \<open>\<open>sendHeartbeat\<close>, lines 70-80: the update is conditional on the row still waiting.\<close>

definition sendHeartbeat :: "string \<Rightarrow> int \<Rightarrow> store \<Rightarrow> store" where
  "sendHeartbeat entryId now db =
     db\<lparr> match_queue_entries :=
           map (\<lambda>e. if qe_id e = entryId \<and> qe_status e = Waiting
                     then e\<lparr> qe_last_heartbeat_at := now \<rparr> else e)
             (match_queue_entries db) \<rparr>"

text \<open>\<open>cancelQueue\<close>, lines 256-272; \<open>queueEntry\<close> is the hook's current entry, if any.\<close>

definition cancelQueue :: "queue_entry option \<Rightarrow> store \<Rightarrow> store" where
  "cancelQueue queueEntry db =
     (case queueEntry of
        None \<Rightarrow> db
      | Some e \<Rightarrow> db\<lparr> match_queue_entries := delete_waiting_entry (qe_id e) (match_queue_entries db) \<rparr>)"

text \<open>The outcome of \<open>joinQueue\<close>: the early return when nobody is logged in, the caught
  insert error, or the inserted entry together with the delay of the AI-fallback timer
  it armed (none for \<open>human_only\<close>).\<close>

datatype join_result =
    Not_logged_in
  | Join_failed store_error
  | Joined queue_entry "nat option"

text \<open>\<open>joinQueue\<close>, lines 172-253.  The delete and the insert are two requests: when the
  insert fails the delete has already happened.\<close>

definition joinQueue ::
  "(string \<times> profile) option \<Rightarrow> match_settings \<Rightarrow> string \<Rightarrow> int \<Rightarrow> store \<Rightarrow> join_result \<times> store" where
  "joinQueue login settings new_id now db =
     (case login of
        None \<Rightarrow> (Not_logged_in, db)
      | Some (uid, prof) \<Rightarrow>
          let elo = rating_of prof (ms_format settings);
              q1 = delete_waiting_of_user uid (match_queue_entries db);
              entry = \<lparr> qe_id = new_id, qe_user_id = uid, qe_format = ms_format settings,
                        qe_mode = ms_mode settings, qe_opponent_type = ms_opponentType settings,
                        qe_elo = elo, qe_status = Waiting, qe_joined_at = now,
                        qe_last_heartbeat_at = now, qe_matched_at = None, qe_room_id = None \<rparr>
          in (case insert_queue_entry entry q1 of
                Inl err \<Rightarrow> (Join_failed err, db\<lparr> match_queue_entries := q1 \<rparr>)
              | Inr q2 \<Rightarrow>
                  (Joined entry
                     (if ms_opponentType settings = Human_then_ai \<or> ms_opponentType settings = Ai_only
                      then Some (if ms_opponentType settings = Ai_only then 0 else AI_FALLBACK_TIMEOUT)
                      else None),
                   db\<lparr> match_queue_entries := q2 \<rparr>)))"

text \<open>Row-level security on \<open>debate_rooms\<close> (migration 20260123191452, lines 218-258 and
  345-349): the helper functions \<open>is_admin\<close> and \<open>is_room_participant\<close>, and the policy
  that lets a user read a room only as one of its participants or as an admin.  A request
  \<open>insert(...).select().single()\<close> returns the new row, so the row must be readable by the
  user who inserts it; otherwise the request fails and nothing is inserted.\<close>

definition is_admin :: "store \<Rightarrow> string \<Rightarrow> bool" where
  "is_admin db uid \<longleftrightarrow> (uid, Admin) \<in> set (user_roles db)"

definition is_room_participant :: "store \<Rightarrow> string \<Rightarrow> string \<Rightarrow> bool" where
  "is_room_participant db rid uid \<longleftrightarrow>
     (rid, Some uid) \<in> set (map (\<lambda>p. (part_room_id p, part_user_id p)) (debate_participants db))"

definition insert_debate_room :: "string \<Rightarrow> debate_room \<Rightarrow> store \<Rightarrow> store_error + store" where
  "insert_debate_room uid room db =
     (if is_room_participant db (room_id room) uid \<or> is_admin db uid
      then Inr (db\<lparr> debate_rooms := debate_rooms db @ [room] \<rparr>)
      else Inl Rls_violation)"

text \<open>The outcome of \<open>createAIMatch\<close>: the early return without a user, the caught error
  of the room insert, or the id of the room it created.\<close>

datatype ai_match_result =
    No_user
  | Ai_match_failed store_error
  | Ai_matched string

text \<open>\<open>createAIMatch\<close>, lines 83-142, for the snapshot \<open>entry\<close> that the timer read: a live
  room with an AI opponent, whose insert error is thrown (line 103) before anything else is
  written; then the human and the AI participant; and then the update of the queue entry,
  which is keyed by the entry id alone (lines 125-132) and, by the update policy of the
  table, reaches only rows of the user.\<close>

definition createAIMatch ::
  "string option \<Rightarrow> string \<Rightarrow> int \<Rightarrow> queue_entry \<Rightarrow> store \<Rightarrow> ai_match_result \<times> store" where
  "createAIMatch user new_room_id now entry db =
     (case user of
        None \<Rightarrow> (No_user, db)
      | Some uid \<Rightarrow>
          let room = \<lparr> room_id = new_room_id, room_format = qe_format entry,
                       room_mode = qe_mode entry, room_state = Live, is_ai_opponent = True,
                       current_phase = Some ''waiting'', created_at = now,
                       started_at = Some now, ended_at = None \<rparr>
          in (case insert_debate_room uid room db of
                Inl roomError \<Rightarrow> (Ai_match_failed roomError, db)
              | Inr db1 \<Rightarrow>
                  let human = \<lparr> part_room_id = new_room_id, part_user_id = Some uid,
                                part_is_ai = False,
                                part_role = Some (if qe_format entry = ''LD'' then ''affirmative''
                                                  else ''proposition''),
                                part_speaking_order = Some 1, part_connected_at = Some now \<rparr>;
                      ai = \<lparr> part_room_id = new_room_id, part_user_id = None, part_is_ai = True,
                             part_role = Some (if qe_format entry = ''LD'' then ''negative''
                                               else ''opposition''),
                             part_speaking_order = Some 2, part_connected_at = None \<rparr>
                  in (Ai_matched new_room_id,
                      db1\<lparr> debate_participants := debate_participants db1 @ [human, ai],
                          match_queue_entries :=
                            map (\<lambda>e. if qe_id e = qe_id entry \<and> qe_user_id e = uid
                                      then e\<lparr> qe_status := Matched, qe_matched_at := Some now,
                                              qe_room_id := Some new_room_id \<rparr>
                                      else e)
                              (match_queue_entries db1) \<rparr>)))"

text \<open>The first half of the timer callback, lines 235-242: re-read the entry with
  \<open>single()\<close> and keep it only if it is still waiting.\<close>

definition fallback_read :: "store \<Rightarrow> string \<Rightarrow> queue_entry option" where
  "fallback_read db entryId =
     (case filter (\<lambda>e. qe_id e = entryId) (match_queue_entries db) of
        [currentEntry] \<Rightarrow> if qe_status currentEntry = Waiting then Some currentEntry else None
      | _ \<Rightarrow> None)"

text \<open>The timer callback run without any other request in between, lines 234-245.\<close>

definition ai_fallback :: "string option \<Rightarrow> string \<Rightarrow> int \<Rightarrow> string \<Rightarrow> store \<Rightarrow> store" where
  "ai_fallback user new_room_id now entryId db =
     (case fallback_read db entryId of
        Some currentEntry \<Rightarrow> snd (createAIMatch user new_room_id now currentEntry db)
      | None \<Rightarrow> db)"

text \<open>The requests the hook sends to the queue table, and a run of them.\<close>

datatype queue_request =
    Join_queue "(string \<times> profile) option" match_settings string int
  | Cancel_queue "queue_entry option"
  | Heartbeat string int
  | Ai_fallback "string option" string int string

fun perform :: "queue_request \<Rightarrow> store \<Rightarrow> store" where
  "perform (Join_queue login settings new_id now) db = snd (joinQueue login settings new_id now db)"
| "perform (Cancel_queue queueEntry) db = cancelQueue queueEntry db"
| "perform (Heartbeat entryId now) db = sendHeartbeat entryId now db"
| "perform (Ai_fallback user new_room_id now entryId) db = ai_fallback user new_room_id now entryId db"

definition perform_all :: "queue_request list \<Rightarrow> store \<Rightarrow> store" where
  "perform_all reqs db = foldl (\<lambda>s r. perform r s) db reqs"

text \<open>The waiting entries of one user.\<close>

definition waiting_of :: "string \<Rightarrow> store \<Rightarrow> queue_entry list" where
  "waiting_of uid db =
     filter (\<lambda>e. qe_user_id e = uid \<and> qe_status e = Waiting) (match_queue_entries db)"

text \<open>Sample data: a store in which \<open>alice\<close> already has a waiting entry and \<open>bob\<close> a
  matched one, and the settings of a new search.\<close>

definition ex_entry :: "string \<Rightarrow> string \<Rightarrow> queue_status \<Rightarrow> queue_entry" where
  "ex_entry eid uid st = \<lparr> qe_id = eid, qe_user_id = uid, qe_format = ''LD'', qe_mode = Ranked,
      qe_opponent_type = Human_then_ai, qe_elo = 1200, qe_status = st, qe_joined_at = 100,
      qe_last_heartbeat_at = 100, qe_matched_at = None, qe_room_id = None \<rparr>"

definition ex_queue_store :: store where
  "ex_queue_store = \<lparr> user_roles = [], match_queue_entries =
        [ex_entry ''e1'' ''alice'' Waiting, ex_entry ''e2'' ''bob'' Matched],
      debate_rooms = [], match_result_submissions = [], debate_participants = [],
      profiles = [ex_profile ''pa'' ''alice'', ex_profile ''pb'' ''bob''],
      match_history = [] \<rparr>"

definition ex_settings :: match_settings where
  "ex_settings = \<lparr> ms_format = ''LD'', ms_mode = Ranked, ms_opponentType = Human_then_ai \<rparr>"

text \<open>The sample store after another writer has matched \<open>alice\<close>'s entry to a room with a
  human opponent.\<close>

definition ex_claimed_store :: store where
  "ex_claimed_store = ex_queue_store \<lparr> match_queue_entries :=
      [(ex_entry ''e1'' ''alice'' Matched) \<lparr> qe_matched_at := Some 30500,
                                             qe_room_id := Some ''room-h'' \<rparr>,
       ex_entry ''e2'' ''bob'' Matched] \<rparr>"


text \<open>The same two stores when \<open>alice\<close> holds the admin role.\<close>

definition ex_admin_store :: store where
  "ex_admin_store = ex_queue_store \<lparr> user_roles := [(''alice'', Admin)] \<rparr>"

definition ex_admin_claimed_store :: store where
  "ex_admin_claimed_store = ex_claimed_store \<lparr> user_roles := [(''alice'', Admin)] \<rparr>"

section \<open>The stored procedure advance_debate_phase (20260204000001_add_hvh_debate_fields.sql)\<close>

text \<open>
  Lines 12-34.  The body is three PL/pgSQL statements: the conditional \<open>UPDATE\<close>,
  \<open>GET DIAGNOSTICS v_updated = ROW_COUNT\<close> and \<open>RETURN v_updated > 0\<close>, where \<open>v_updated\<close> is
  declared \<open>BOOLEAN\<close> (line 22).  PL/pgSQL plans an expression when the statement first
  runs, so the function is created without complaint and its typing shows at the call:
  \<^item> \<open>ROW_COUNT\<close> is a \<open>bigint\<close>; there is no assignment cast from \<open>bigint\<close> to \<open>boolean\<close>,
    so the assignment converts through text, and the boolean input routine accepts
    \<open>0\<close> and \<open>1\<close> and rejects every other number;
  \<^item> in \<open>v_updated > 0\<close> the left operand is \<open>boolean\<close> and the literal is \<open>integer\<close>; no
    operator \<open>boolean > integer\<close> exists and neither operand converts implicitly, so the
    statement raises \<open>undefined_function\<close> (``operator does not exist: boolean > integer'').

  An error raised inside the function aborts the calling statement, and the \<open>UPDATE\<close> made
  before it is rolled back.  SQL equality is never true on \<open>NULL\<close>.
\<close>

datatype pg_error = Undefined_function | Invalid_text_representation

datatype pg_value = Pg_boolean bool | Pg_integer int

text \<open>Assigning a \<open>bigint\<close> to a \<open>BOOLEAN\<close> variable.\<close>

definition bigint_to_boolean :: "int \<Rightarrow> pg_error + bool" where
  "bigint_to_boolean n =
     (if n = 1 then Inr True else if n = 0 then Inr False else Inl Invalid_text_representation)"

text \<open>The operator \<open>>\<close> on the operand types that occur here.\<close>

fun pg_greater :: "pg_value \<Rightarrow> pg_value \<Rightarrow> pg_error + bool" where
  "pg_greater (Pg_boolean a) (Pg_boolean b) = Inr (a \<and> \<not> b)"
| "pg_greater (Pg_integer a) (Pg_integer b) = Inr (b < a)"
| "pg_greater (Pg_boolean a) (Pg_integer b) = Inl Undefined_function"
| "pg_greater (Pg_integer a) (Pg_boolean b) = Inl Undefined_function"

text \<open>The \<open>WHERE\<close> clause of the \<open>UPDATE\<close>, lines 26-29.\<close>

definition phase_matches :: "string option \<Rightarrow> string option \<Rightarrow> debate_room \<Rightarrow> bool" where
  "phase_matches p_room_id p_current_phase r \<longleftrightarrow>
     p_room_id = Some (room_id r) \<and> current_phase r \<noteq> None \<and> current_phase r = p_current_phase"

definition update_phase :: "string option \<Rightarrow> string option \<Rightarrow> string option \<Rightarrow> debate_room list \<Rightarrow> debate_room list" where
  "update_phase p_room_id p_current_phase p_next_phase rooms =
     map (\<lambda>r. if phase_matches p_room_id p_current_phase r
               then r\<lparr> current_phase := p_next_phase \<rparr> else r) rooms"

text \<open>The function call: its result, or the error it raises, and the table afterwards.\<close>

definition advance_debate_phase ::
  "string option \<Rightarrow> string option \<Rightarrow> string option \<Rightarrow> debate_room list \<Rightarrow> (pg_error + bool) \<times> debate_room list" where
  "advance_debate_phase p_room_id p_current_phase p_next_phase rooms =
     (let updated = update_phase p_room_id p_current_phase p_next_phase rooms;
          row_count = int (length (filter (phase_matches p_room_id p_current_phase) rooms))
      in case bigint_to_boolean row_count of
           Inl err \<Rightarrow> (Inl err, rooms)
         | Inr v_updated \<Rightarrow>
             (case pg_greater (Pg_boolean v_updated) (Pg_integer 0) of
                Inl err \<Rightarrow> (Inl err, rooms)
              | Inr result \<Rightarrow> (Inr result, updated)))"


section \<open>Live debate room: the page of one participant (HeroSection.tsx, LiveDebateRoom)\<close>

text \<open>
  The phase of a debate is React state of each participant's page.  The component state that
  the phase handlers read or write is a record, each handler is a function on it, and the
  \<open>phase_change\<close> and \<open>user_ready\<close> payloads the page has broadcast are collected in \<open>sent\<close>.
  The two child components whose callbacks drive the phase, \<open>PrepTimer\<close> (unnamed/part_006)
  and \<open>TransitionCountdown\<close> (unnamed/part_007), are modelled with their own state and with
  the props the page passes them.  Media streams, peer-connection signalling, voice
  recording and the transcript are left out: none of their handlers touches the phase.
\<close>

datatype debate_phase =
    Loading | Waiting_for_opponent | Setup | Prep
  | Prop_constructive | Opp_constructive | Prop_rebuttal | Opp_rebuttal
  | Prop_closing | Opp_closing
  | Transition | Debate_complete | Judging | Results

datatype hvh_format = Rapid | Standard | Extended

record format_times =
  ft_prep :: nat
  ft_constructive :: nat
  ft_rebuttal :: nat
  ft_closing :: nat

text \<open>Lines 245-258.\<close>

definition FORMAT_TIMES :: "hvh_format \<Rightarrow> format_times" where
  "FORMAT_TIMES f =
     (case f of
        Rapid \<Rightarrow> \<lparr> ft_prep = 30, ft_constructive = 60, ft_rebuttal = 60, ft_closing = 60 \<rparr>
      | Standard \<Rightarrow> \<lparr> ft_prep = 60, ft_constructive = 180, ft_rebuttal = 120, ft_closing = 90 \<rparr>
      | Extended \<Rightarrow> \<lparr> ft_prep = 900, ft_constructive = 420, ft_rebuttal = 240, ft_closing = 180 \<rparr>)"

definition SPEECH_PHASES :: "debate_phase list" where
  "SPEECH_PHASES =
     [Prop_constructive, Opp_constructive, Prop_rebuttal, Opp_rebuttal, Prop_closing, Opp_closing]"

text \<open>The values of \<open>transitionMode\<close>: the component knows \<open>tick\<close>, \<open>auto\<close> and \<open>both\<close>
  (part_007, line 6); the buttons of the setup screen store \<open>audio\<close>, \<open>visual\<close> or \<open>both\<close>
  (HeroSection.tsx, lines 1003-1015).\<close>

datatype transition_mode = Tick | Auto | Both | Audio | Visual

text \<open>The payloads of the broadcast events \<open>phase_change\<close> and \<open>user_ready\<close>: the sender's
  user id and, for the former, the new phase.\<close>

datatype broadcast = Phase_change string debate_phase | User_ready string

text \<open>The state of the page (lines 272-315) and of the two child components.  The time
  left in \<open>PrepTimer\<close> is a JavaScript number that may be \<open>undefined\<close> or \<open>NaN\<close>; both are
  \<open>None\<close>.\<close>

record client =
  cl_user :: string
  phase :: debate_phase
  timeLeft :: nat
  isTimerRunning :: bool
  hvhFormat :: hvh_format
  transitionMode :: transition_mode
  showTransition :: bool
  nextPhaseAfterTransition :: "debate_phase option"
  showPredictionModal :: bool
  mediaReady :: bool
  channel_subscribed :: bool
  sent :: "broadcast list"
  prep_timeLeft :: "nat option"
  prep_isPaused :: bool
  cd_confirmed :: bool
  cd_countdown :: nat
  cd_isCountingDown :: bool

text \<open>\<open>Array.prototype.indexOf\<close>: the first position of the element, or -1.\<close>

fun indexOf :: "'a list \<Rightarrow> 'a \<Rightarrow> int" where
  "indexOf [] x = - 1"
| "indexOf (y # ys) x = (if y = x then 0 else if indexOf ys x < 0 then - 1 else indexOf ys x + 1)"

text \<open>\<open>getSpeechTime\<close>, lines 365-371; the substring tests are decided by the phase name.\<close>

definition getSpeechTime :: "hvh_format \<Rightarrow> debate_phase \<Rightarrow> nat" where
  "getSpeechTime fmt phaseToCheck =
     (let times = FORMAT_TIMES fmt
      in if phaseToCheck = Prop_constructive \<or> phaseToCheck = Opp_constructive
         then ft_constructive times
         else if phaseToCheck = Prop_rebuttal \<or> phaseToCheck = Opp_rebuttal
         then ft_rebuttal times
         else if phaseToCheck = Prop_closing \<or> phaseToCheck = Opp_closing
         then ft_closing times
         else ft_constructive times)"

text \<open>\<open>getNextPhase\<close>, lines 373-379.\<close>

definition getNextPhase :: "debate_phase \<Rightarrow> debate_phase option" where
  "getNextPhase currentPhase =
     (let currentIndex = indexOf SPEECH_PHASES currentPhase
      in if 0 \<le> currentIndex \<and> currentIndex < int (length SPEECH_PHASES) - 1
         then Some (SPEECH_PHASES ! nat (currentIndex + 1))
         else None)"

text \<open>\<open>broadcastPhaseChange\<close> and \<open>broadcastReady\<close>, lines 412-428: nothing is sent without
  a channel.\<close>

definition broadcastPhaseChange :: "debate_phase \<Rightarrow> client \<Rightarrow> client" where
  "broadcastPhaseChange newPhase c =
     (if \<not> channel_subscribed c then c
      else c\<lparr> sent := sent c @ [Phase_change (cl_user c) newPhase] \<rparr>)"

definition broadcastReady :: "client \<Rightarrow> client" where
  "broadcastReady c =
     (if \<not> channel_subscribed c then c
      else c\<lparr> sent := sent c @ [User_ready (cl_user c)] \<rparr>)"

text \<open>\<open>startPhase\<close>, lines 571-589: the phase is set in the local state and then announced;
  no request goes to the store.\<close>

definition startPhase :: "debate_phase \<Rightarrow> client \<Rightarrow> client" where
  "startPhase newPhase c =
     broadcastPhaseChange newPhase
       (c\<lparr> phase := newPhase,
           timeLeft := getSpeechTime (hvhFormat c) newPhase,
           isTimerRunning := True \<rparr>)"

text \<open>\<open>handleTransitionComplete\<close>, lines 591-597.\<close>

definition handleTransitionComplete :: "client \<Rightarrow> client" where
  "handleTransitionComplete c =
     (case nextPhaseAfterTransition c of
        None \<Rightarrow> c\<lparr> showTransition := False \<rparr>
      | Some p \<Rightarrow> (startPhase p (c\<lparr> showTransition := False \<rparr>))\<lparr> nextPhaseAfterTransition := None \<rparr>)"

text \<open>\<open>handlePhaseEnd\<close>, lines 599-613.\<close>

definition handlePhaseEnd :: "client \<Rightarrow> client" where
  "handlePhaseEnd c =
     (case getNextPhase (phase c) of
        Some nextPhase \<Rightarrow>
          c\<lparr> isTimerRunning := False, nextPhaseAfterTransition := Some nextPhase,
              showTransition := True \<rparr>
      | None \<Rightarrow>
          c\<lparr> isTimerRunning := False, phase := Debate_complete, showPredictionModal := True \<rparr>)"

text \<open>\<open>handlePrepComplete\<close>, lines 615-620.\<close>

definition handlePrepComplete :: "client \<Rightarrow> client" where
  "handlePrepComplete c =
     c\<lparr> nextPhaseAfterTransition := Some Prop_constructive, showTransition := True \<rparr>"

text \<open>\<open>handleConnectAndStart\<close>, lines 622-645.  \<open>media_ok\<close> says whether \<open>initializeWebRTC\<close>
  obtained the camera and microphone; only then is the page marked ready, the other side
  told so, and the phase set to \<open>prep\<close>.  The phase is set in the local state only.\<close>

definition handleConnectAndStart :: "bool \<Rightarrow> client \<Rightarrow> client" where
  "handleConnectAndStart media_ok c =
     (if media_ok then (broadcastReady (c\<lparr> mediaReady := True \<rparr>))\<lparr> phase := Prep \<rparr> else c)"

text \<open>The speech timer effect, lines 710-724: one tick of the interval.\<close>

definition timer_tick :: "client \<Rightarrow> client" where
  "timer_tick c =
     (if \<not> isTimerRunning c then c
      else if timeLeft c \<le> 1 then (handlePhaseEnd c)\<lparr> timeLeft := 0 \<rparr>
      else c\<lparr> timeLeft := timeLeft c - 1 \<rparr>)"

text \<open>The end of \<open>fetchRoom\<close>, lines 741 and 786-801: \<open>fmt\<close> is the room's \<open>hvh_format\<close>,
  \<open>all_connected\<close> says that at least two human participants are there and all of them
  connected, \<open>room_live\<close> that the room was read with status \<open>live\<close>.\<close>

definition fetchRoom_done :: "hvh_format option \<Rightarrow> bool \<Rightarrow> bool \<Rightarrow> client \<Rightarrow> client" where
  "fetchRoom_done fmt all_connected room_live c =
     c\<lparr> hvhFormat := (case fmt of None \<Rightarrow> Standard | Some f \<Rightarrow> f),
        phase := (if all_connected then Setup
                  else if room_live then Setup
                  else Waiting_for_opponent) \<rparr>"

text \<open>The handler of changes to the participants table, lines 867-889.\<close>

definition on_participants_changed :: "bool \<Rightarrow> client \<Rightarrow> client" where
  "on_participants_changed all_connected c =
     (if all_connected \<and> phase c = Waiting_for_opponent then c\<lparr> phase := Setup \<rparr> else c)"

text \<open>The handlers of the two broadcasts, lines 840-858.  A \<open>phase_change\<close> payload from
  the other user is written to the console; a \<open>user_ready\<close> payload may start the
  peer-connection offer.  Neither changes the state modelled here.\<close>

fun on_broadcast :: "broadcast \<Rightarrow> client \<Rightarrow> client" where
  "on_broadcast (Phase_change u p) c = (if u \<noteq> cl_user c then c else c)"
| "on_broadcast (User_ready u) c = (if u \<noteq> cl_user c \<and> mediaReady c then c else c)"

text \<open>\<open>requestAIJudgment\<close>, lines 651-684: before and after the call to the judge.\<close>

definition requestAIJudgment_begin :: "client \<Rightarrow> client" where
  "requestAIJudgment_begin c = c\<lparr> showPredictionModal := False, phase := Judging \<rparr>"

definition requestAIJudgment_end :: "client \<Rightarrow> client" where
  "requestAIJudgment_end c = c\<lparr> phase := Results \<rparr>"

subsection \<open>PrepTimer (unnamed/part_006)\<close>

text \<open>The page mounts the component at lines 1034-1042 with the props \<open>format\<close>, \<open>topic\<close>,
  \<open>userSide\<close>, \<open>onComplete\<close>, \<open>onSkip\<close>, \<open>notes\<close> and \<open>setNotes\<close>.  The component reads
  \<open>totalSeconds\<close>, which is not among them, so its time left starts as \<open>undefined\<close>.\<close>

definition page_totalSeconds :: "nat option" where
  "page_totalSeconds = None"

text \<open>One tick of the interval of lines 34-48: the new time left and whether \<open>onComplete\<close>
  was called.  No interval runs while paused or when the time left is at most 0; every
  comparison with \<open>undefined\<close> or \<open>NaN\<close> is false, and \<open>prev - 1\<close> is then \<open>NaN\<close>.\<close>

definition prepTimer_tick :: "bool \<Rightarrow> nat option \<Rightarrow> nat option \<times> bool" where
  "prepTimer_tick isPaused t =
     (if isPaused then (t, False)
      else case t of
        None \<Rightarrow> (None, False)
      | Some n \<Rightarrow> if n \<le> 0 then (Some n, False)
                  else if n \<le> 1 then (Some 0, True)
                  else (Some (n - 1), False))"

subsection \<open>TransitionCountdown (unnamed/part_007)\<close>

text \<open>The page mounts the component at lines 1158-1166, while a transition is shown and a
  next phase is pending, with the props \<open>nextSpeaker\<close>, \<open>nextSpeechType\<close>, \<open>isUserNext\<close>,
  \<open>onComplete\<close> and \<open>mode\<close>.  The component reads \<open>isVisible\<close>, which is not among them, so
  it is \<open>undefined\<close>, which counts as false.\<close>

definition page_isVisible :: bool where
  "page_isVisible = False"

text \<open>The timeout of the visibility effect, lines 28-42: it is set only when the component
  is visible and the mode is \<open>auto\<close>.\<close>

definition countdown_auto_start :: "bool \<Rightarrow> client \<Rightarrow> client" where
  "countdown_auto_start isVisible c =
     (if isVisible \<and> transitionMode c = Auto then c\<lparr> cd_isCountingDown := True \<rparr> else c)"

text \<open>One tick of the countdown interval, lines 45-60.\<close>

definition countdown_tick :: "(client \<Rightarrow> client) \<Rightarrow> client \<Rightarrow> client" where
  "countdown_tick onComplete c =
     (if \<not> cd_isCountingDown c \<or> cd_countdown c \<le> 0 then c
      else if cd_countdown c \<le> 1
      then (onComplete (c\<lparr> cd_isCountingDown := False \<rparr>))\<lparr> cd_countdown := 0 \<rparr>
      else c\<lparr> cd_countdown := cd_countdown c - 1 \<rparr>)"

text \<open>\<open>handleConfirm\<close>, lines 62-71, behind the buttons of lines 175-191, which exist only
  while the component renders (line 78), is not counting down, and the mode is \<open>tick\<close>, or
  \<open>both\<close> and not yet confirmed.\<close>

definition countdown_confirm :: "bool \<Rightarrow> (client \<Rightarrow> client) \<Rightarrow> client \<Rightarrow> client" where
  "countdown_confirm isVisible onComplete c =
     (if isVisible \<and> \<not> cd_isCountingDown c \<and>
         (transitionMode c = Tick \<or> (transitionMode c = Both \<and> \<not> cd_confirmed c))
      then (if transitionMode c = Tick then onComplete (c\<lparr> cd_confirmed := True \<rparr>)
            else if transitionMode c = Both
            then c\<lparr> cd_confirmed := True, cd_isCountingDown := True \<rparr>
            else c\<lparr> cd_confirmed := True \<rparr>)
      else c)"

text \<open>\<open>handleSkipCountdown\<close>, lines 73-76, behind the button of lines 158-160, which exists
  only while the component renders and is counting down.\<close>

definition countdown_skip :: "bool \<Rightarrow> (client \<Rightarrow> client) \<Rightarrow> client \<Rightarrow> client" where
  "countdown_skip isVisible onComplete c =
     (if isVisible \<and> cd_isCountingDown c then onComplete (c\<lparr> cd_isCountingDown := False \<rparr>)
      else c)"

text \<open>The button \<open>Skip to next round\<close>, lines 193-202: it exists only while the component
  renders, is not counting down, and the mode is \<open>auto\<close>.\<close>

definition countdown_skip_round :: "bool \<Rightarrow> (client \<Rightarrow> client) \<Rightarrow> client \<Rightarrow> client" where
  "countdown_skip_round isVisible onComplete c =
     (if isVisible \<and> \<not> cd_isCountingDown c \<and> transitionMode c = Auto then onComplete c else c)"

subsection \<open>Events of the page\<close>

text \<open>A child component keeps its state only while it is mounted: \<open>PrepTimer\<close> while the
  phase is \<open>prep\<close> (line 1032), \<open>TransitionCountdown\<close> while a transition is shown and a
  next phase is pending (line 1158).  Mounted again, it starts from its initial state
  (part_006, lines 24-25; part_007, lines 23-25).\<close>

definition remount :: "client \<Rightarrow> client" where
  "remount c =
     (let c1 = (if phase c = Prep then c
                else c\<lparr> prep_timeLeft := page_totalSeconds, prep_isPaused := False \<rparr>)
      in if showTransition c1 \<and> nextPhaseAfterTransition c1 \<noteq> None then c1
         else c1\<lparr> cd_confirmed := False, cd_countdown := 10, cd_isCountingDown := False \<rparr>)"

text \<open>What can happen to the page.  Each event reaches its handler only while the element
  that raises it exists: the buttons of the setup screen while the phase is \<open>setup\<close>
  (line 979), the preparation timer and its buttons while the phase is \<open>prep\<close>, the
  countdown while it is mounted, the prediction modal while it is open (line 1181).\<close>

datatype room_event =
    Room_fetched "hvh_format option" bool bool
  | Participants_changed bool
  | Mode_selected transition_mode
  | Connect_clicked bool
  | Prep_timer_tick
  | Prep_pause_clicked
  | Prep_skip_clicked
  | Countdown_auto_start
  | Countdown_tick
  | Countdown_confirm_clicked
  | Countdown_skip_clicked
  | Countdown_skip_round_clicked
  | Timer_tick
  | Broadcast_received broadcast
  | Judgment_requested
  | Judgment_returned

fun handle_event :: "room_event \<Rightarrow> client \<Rightarrow> client" where
  "handle_event (Room_fetched fmt all_connected room_live) c =
     fetchRoom_done fmt all_connected room_live c"
| "handle_event (Participants_changed all_connected) c = on_participants_changed all_connected c"
| "handle_event (Mode_selected m) c =
     (if phase c = Setup \<and> (m = Audio \<or> m = Visual \<or> m = Both)
      then c\<lparr> transitionMode := m \<rparr> else c)"
| "handle_event (Connect_clicked media_ok) c =
     (if phase c = Setup then handleConnectAndStart media_ok c else c)"
| "handle_event Prep_timer_tick c =
     (if phase c = Prep
      then (let r = prepTimer_tick (prep_isPaused c) (prep_timeLeft c);
                c1 = c\<lparr> prep_timeLeft := fst r \<rparr>
            in if snd r then handlePrepComplete c1 else c1)
      else c)"
| "handle_event Prep_pause_clicked c =
     (if phase c = Prep then c\<lparr> prep_isPaused := \<not> prep_isPaused c \<rparr> else c)"
| "handle_event Prep_skip_clicked c = (if phase c = Prep then handlePrepComplete c else c)"
| "handle_event Countdown_auto_start c =
     (if showTransition c \<and> nextPhaseAfterTransition c \<noteq> None
      then countdown_auto_start page_isVisible c else c)"
| "handle_event Countdown_tick c =
     (if showTransition c \<and> nextPhaseAfterTransition c \<noteq> None
      then countdown_tick handleTransitionComplete c else c)"
| "handle_event Countdown_confirm_clicked c =
     (if showTransition c \<and> nextPhaseAfterTransition c \<noteq> None
      then countdown_confirm page_isVisible handleTransitionComplete c else c)"
| "handle_event Countdown_skip_clicked c =
     (if showTransition c \<and> nextPhaseAfterTransition c \<noteq> None
      then countdown_skip page_isVisible handleTransitionComplete c else c)"
| "handle_event Countdown_skip_round_clicked c =
     (if showTransition c \<and> nextPhaseAfterTransition c \<noteq> None
      then countdown_skip_round page_isVisible handleTransitionComplete c else c)"
| "handle_event Timer_tick c = timer_tick c"
| "handle_event (Broadcast_received b) c = on_broadcast b c"
| "handle_event Judgment_requested c =
     (if showPredictionModal c then requestAIJudgment_begin c else c)"
| "handle_event Judgment_returned c = (if phase c = Judging then requestAIJudgment_end c else c)"

definition room_step :: "room_event \<Rightarrow> client \<Rightarrow> client" where
  "room_step e c = remount (handle_event e c)"

definition run_room :: "room_event list \<Rightarrow> client \<Rightarrow> client" where
  "run_room es c = foldl (\<lambda>s e. room_step e s) c es"

text \<open>The page as it is first rendered: every piece of state has the initial value of its
  \<open>useState\<close> (lines 272-315), and the channel of lines 825-893 is subscribed.\<close>

definition initial_page :: "string \<Rightarrow> client" where
  "initial_page uid = \<lparr> cl_user = uid, phase = Loading, timeLeft = 0, isTimerRunning = False,
      hvhFormat = Standard, transitionMode = Both, showTransition = False,
      nextPhaseAfterTransition = None, showPredictionModal = False, mediaReady = False,
      channel_subscribed = True, sent = [],
      prep_timeLeft = page_totalSeconds, prep_isPaused = False,
      cd_confirmed = False, cd_countdown = 10, cd_isCountingDown = False \<rparr>"

text \<open>What holds of a page on which no speech has started: no speech timer runs, the
  countdown is not counting, and the prediction modal is closed.\<close>

definition before_speeches :: "client \<Rightarrow> bool" where
  "before_speeches c \<longleftrightarrow>
     (phase c = Loading \<or> phase c = Waiting_for_opponent \<or> phase c = Setup \<or> phase c = Prep) \<and>
     \<not> isTimerRunning c \<and> \<not> cd_isCountingDown c \<and> \<not> showPredictionModal c"

text \<open>Delivery of the payloads one page has broadcast to the page of the other user.\<close>

definition deliver :: "broadcast list \<Rightarrow> client \<Rightarrow> client" where
  "deliver payloads c = foldl (\<lambda>s b. room_step (Broadcast_received b) s) c payloads"

text \<open>Sample runs: a page whose room is fetched with both participants connected; the
  same page after its user has connected camera and microphone; and that page after the
  user has skipped the preparation and then every countdown event, every timer and the
  other side's broadcasts have come in.\<close>

definition ex_to_setup :: "room_event list" where
  "ex_to_setup = [Room_fetched (Some Rapid) True False]"

definition ex_to_prep :: "room_event list" where
  "ex_to_prep = ex_to_setup @ [Connect_clicked True]"

definition ex_after_prep :: "room_event list" where
  "ex_after_prep = ex_to_prep @
     [Prep_skip_clicked, Countdown_auto_start, Countdown_confirm_clicked, Countdown_tick,
      Countdown_skip_clicked, Countdown_skip_round_clicked, Prep_timer_tick, Timer_tick,
      Broadcast_received (Phase_change ''bob'' Prop_constructive), Prep_skip_clicked,
      Countdown_confirm_clicked]"

section \<open>Properties of the rating engine\<close>

subsection \<open>Auxiliary facts about queries and updates\<close>

lemmas ex_defs = ex_store_def ex_room_def ex_profile_def ex_submission_def

lemmas query_defs = select_room_def select_submissions_def select_participants_def
  select_profiles_def

lemmas elo_defs = update_elo_def apply_settlement_def consistent_results_def winner_of_def
  actual_scores_def new_rating_def getKFactor_def expected_score_def rating_of_def or_zero_def
  update_profile_def set_profile_fields_def duration_seconds_def query_defs

lemma find_map_preserve:
  assumes "\<And>x. P (f x) = P x"
  shows "find P (map f xs) = map_option f (find P xs)"
  by (induction xs) (simp_all add: assms)

lemma filter_map_preserve:
  assumes "\<And>x. P (f x) = P x"
  shows "filter P (map f xs) = map f (filter P xs)"
  by (induction xs) (simp_all add: assms)

lemma find_by_id_mem:
  assumes "u \<in> set ps"
  shows "\<exists>p. find (\<lambda>p. prof_id p = prof_id u) ps = Some p \<and> prof_id p = prof_id u"
  using assms by (induction ps) auto

lemma take2_cons:
  assumes "take 2 xs = [a, b]"
  shows "\<exists>rest. xs = a # b # rest"
proof (cases xs)
  case Nil
  with assms show ?thesis by simp
next
  case (Cons x ys)
  note c1 = this
  show ?thesis
  proof (cases ys)
    case Nil
    with c1 assms show ?thesis by simp
  next
    case (Cons y zs)
    with c1 assms show ?thesis by (simp add: numeral_2_eq_2)
  qed
qed

lemma settles_profiles:
  assumes "settles db roomId room subs userA userB"
  shows "\<exists>rest. select_profiles db (map part_user_id (select_participants db roomId))
           = userA # userB # rest"
proof -
  from assms have "take 2 (select_profiles db (map part_user_id (select_participants db roomId)))
      = [userA, userB]"
    by (simp add: settles_def)
  then show ?thesis by (rule take2_cons)
qed

lemma settles_facts:
  assumes "settles db roomId room subs userA userB"
  shows "roomId \<noteq> []" "select_room db roomId = [room]"
    "room_mode room = Ranked" "\<not> is_ai_opponent room"
    "select_submissions db roomId = subs" "\<not> length subs < 2"
    "consistent_results (map submitted_result subs)"
    "\<not> length (select_participants db roomId) < 2"
  using assms by (auto simp add: settles_def)

lemma update_elo_settles:
  assumes "settles db roomId room subs userA userB"
  shows "update_elo now db roomId = apply_settlement now db room subs userA userB"
proof -
  from settles_profiles [OF assms] obtain rest where
    e: "select_profiles db (map part_user_id (select_participants db roomId)) = userA # userB # rest"
    by blast
  note a = settles_facts [OF assms]
  show ?thesis
    unfolding update_elo_def by (simp add: Let_def a e)
qed

lemma settles_members:
  assumes "settles db roomId room subs userA userB"
  shows "userA \<in> set (profiles db)" "userB \<in> set (profiles db)"
proof -
  from settles_profiles [OF assms] obtain rest where
    e: "select_profiles db (map part_user_id (select_participants db roomId)) = userA # userB # rest"
    by blast
  have "set (select_profiles db (map part_user_id (select_participants db roomId))) \<subseteq> set (profiles db)"
    unfolding select_profiles_def by auto
  with e show "userA \<in> set (profiles db)" "userB \<in> set (profiles db)" by auto
qed

lemma update_profile_id [simp]:
  "(prof_id (if prof_id p = prof_id u then set_profile_fields u fmt r s p else p) = k) = (prof_id p = k)"
  by (simp add: set_profile_fields_def)

lemma find_update_profile:
  "find (\<lambda>p. prof_id p = k) (update_profile u fmt r s ps) =
     map_option (\<lambda>p. if prof_id p = prof_id u then set_profile_fields u fmt r s p else p)
       (find (\<lambda>p. prof_id p = k) ps)"
  unfolding update_profile_def
  by (rule find_map_preserve) (rule update_profile_id)

lemma row_after_updates:
  assumes "u \<in> set ps" "prof_id u \<noteq> prof_id v"
  shows "\<exists>p. find (\<lambda>p. prof_id p = prof_id u) (update_profile v fmt rv sv (update_profile u fmt ru su ps))
            = Some (set_profile_fields u fmt ru su p)"
proof -
  from find_by_id_mem [OF assms(1)] obtain p where
    p: "find (\<lambda>p. prof_id p = prof_id u) ps = Some p" "prof_id p = prof_id u" by blast
  have "find (\<lambda>p. prof_id p = prof_id u) (update_profile v fmt rv sv (update_profile u fmt ru su ps))
      = Some (set_profile_fields u fmt ru su p)"
    using p assms(2) by (simp add: find_update_profile set_profile_fields_def)
  then show ?thesis ..
qed

lemma row_after_updates2:
  assumes "u \<in> set ps" "prof_id u \<noteq> prof_id v"
  shows "\<exists>p. find (\<lambda>p. prof_id p = prof_id u) (update_profile u fmt ru su (update_profile v fmt rv sv ps))
            = Some (set_profile_fields u fmt ru su p)"
proof -
  from find_by_id_mem [OF assms(1)] obtain p where
    p: "find (\<lambda>p. prof_id p = prof_id u) ps = Some p" "prof_id p = prof_id u" by blast
  have "find (\<lambda>p. prof_id p = prof_id u) (update_profile u fmt ru su (update_profile v fmt rv sv ps))
      = Some (set_profile_fields u fmt ru su p)"
    using p assms(2) by (simp add: find_update_profile)
  then show ?thesis ..
qed

subsection \<open>The outcome of a settlement\<close>

text \<open>The response, the two written rows and the history row, in terms of the scores the
  handler derived.\<close>

lemma settled_outcome:
  assumes st: "settles db roomId room subs userA userB"
    and ids: "prof_id userA \<noteq> prof_id userB"
    and sc: "actual_scores (list_all (\<lambda>r. r = Draw) (map submitted_result subs))
              (if list_all (\<lambda>r. r = Draw) (map submitted_result subs) then None else winner_of subs)
              userA = (scoreA, scoreB)"
    and nA: "nA = new_rating (rating_of userA (room_format room)) scoreA
              (expected_score (rating_of userA (room_format room)) (rating_of userB (room_format room)))"
    and nB: "nB = new_rating (rating_of userB (room_format room)) scoreB
              (expected_score (rating_of userB (room_format room)) (rating_of userA (room_format room)))"
  shows "fst (update_elo now db roomId) =
           Elo_updated (nA - rating_of userA (room_format room)) (nB - rating_of userB (room_format room))"
    and "\<exists>p. profile_by_id (snd (update_elo now db roomId)) (prof_id userA)
           = Some (set_profile_fields userA (room_format room) nA scoreA p)"
    and "\<exists>p. profile_by_id (snd (update_elo now db roomId)) (prof_id userB)
           = Some (set_profile_fields userB (room_format room) nB scoreB p)"
    and "\<exists>h. match_history (snd (update_elo now db roomId)) = match_history db @ [h] \<and>
           mh_room_id h = roomId"
proof -
  have mem: "userA \<in> set (profiles db)" "userB \<in> set (profiles db)"
    using settles_members [OF st] .
  have rid: "room_id room = roomId"
  proof -
    have "room \<in> set (select_room db roomId)"
      using settles_facts(2) [OF st] by simp
    then show ?thesis by (simp add: select_room_def)
  qed
  have eq: "update_elo now db roomId = apply_settlement now db room subs userA userB"
    by (rule update_elo_settles [OF st])
  show "fst (update_elo now db roomId) =
           Elo_updated (nA - rating_of userA (room_format room)) (nB - rating_of userB (room_format room))"
    unfolding eq apply_settlement_def by (simp add: Let_def sc nA nB)
  have ps: "profiles (snd (update_elo now db roomId)) =
      update_profile userB (room_format room) nB scoreB
        (update_profile userA (room_format room) nA scoreA (profiles db))"
    unfolding eq apply_settlement_def by (simp add: Let_def sc nA nB)
  show "\<exists>p. profile_by_id (snd (update_elo now db roomId)) (prof_id userA)
           = Some (set_profile_fields userA (room_format room) nA scoreA p)"
    unfolding profile_by_id_def ps using row_after_updates [OF mem(1) ids] .
  show "\<exists>p. profile_by_id (snd (update_elo now db roomId)) (prof_id userB)
           = Some (set_profile_fields userB (room_format room) nB scoreB p)"
    unfolding profile_by_id_def ps using row_after_updates2 [OF mem(2) ids [symmetric]] .
  show "\<exists>h. match_history (snd (update_elo now db roomId)) = match_history db @ [h] \<and>
           mh_room_id h = roomId"
    unfolding eq apply_settlement_def by (simp add: Let_def rid)
qed

lemma consistent_two:
  assumes "consistent_results [r1, r2]"
  shows "(r1 = Win \<and> r2 = Loss) \<or> (r1 = Loss \<and> r2 = Win) \<or> (r1 = Draw \<and> r2 = Draw)"
  using assms unfolding consistent_results_def
  by (cases r1; cases r2) simp_all

lemma scores_two:
  assumes c: "consistent_results [submitted_result s1, submitted_result s2]"
    and o: "(s1 = sA \<and> s2 = sB) \<or> (s1 = sB \<and> s2 = sA)"
    and a: "sub_user_id sA = prof_user_id userA"
    and d: "sub_user_id sB \<noteq> prof_user_id userA"
    and ne: "sub_user_id sA \<noteq> []" "sub_user_id sB \<noteq> []"
  shows "actual_scores (list_all (\<lambda>r. r = Draw) (map submitted_result [s1, s2]))
           (if list_all (\<lambda>r. r = Draw) (map submitted_result [s1, s2]) then None
            else winner_of [s1, s2]) userA
         = (actual_of_result (submitted_result sA), actual_of_result (submitted_result sB))"
proof -
  from consistent_two [OF c] consider
      (wl) "submitted_result s1 = Win" "submitted_result s2 = Loss"
    | (lw) "submitted_result s1 = Loss" "submitted_result s2 = Win"
    | (dd) "submitted_result s1 = Draw" "submitted_result s2 = Draw"
    by blast
  then show ?thesis
  proof cases
    case wl
    with o a d ne show ?thesis
      by (auto simp add: actual_scores_def winner_of_def actual_of_result_def)
  next
    case lw
    with o a d ne show ?thesis
      by (auto simp add: actual_scores_def winner_of_def actual_of_result_def)
  next
    case dd
    with o show ?thesis
      by (auto simp add: actual_scores_def actual_of_result_def)
  qed
qed

lemma or_zero_Some: "or_zero (Some n) = n"
  by (simp add: or_zero_def)

lemma scores_pair:
  "actual_scores d w u = (fst (actual_scores d w u), snd (actual_scores d w u))"
  by simp

lemma settled_store:
  assumes st: "settles db roomId room subs userA userB"
  shows "\<exists>nA sA nB sB h.
           snd (update_elo now db roomId) =
             db\<lparr> profiles := update_profile userB (room_format room) nB sB
                               (update_profile userA (room_format room) nA sA (profiles db)),
                 match_history := match_history db @ [h] \<rparr>"
  unfolding update_elo_settles [OF st] apply_settlement_def Let_def snd_conv
  by blast

lemma filter_update_profile:
  "filter (\<lambda>p. Some (prof_user_id p) \<in> set ids) (update_profile u fmt n s ps) =
     update_profile u fmt n s (filter (\<lambda>p. Some (prof_user_id p) \<in> set ids) ps)"
  unfolding update_profile_def
  by (rule filter_map_preserve) (simp add: set_profile_fields_def)

lemma select_profiles_update:
  "select_profiles
     (db\<lparr> profiles := update_profile v fmt nv sv (update_profile u fmt nu su (profiles db)),
          match_history := hs \<rparr>) ids
   = update_profile v fmt nv sv (update_profile u fmt nu su (select_profiles db ids))"
  unfolding select_profiles_def by (simp add: filter_update_profile)

lemma settles_again:
  assumes st: "settles db roomId room subs userA userB"
    and ids: "prof_id userA \<noteq> prof_id userB"
  shows "\<exists>userA' userB'.
           settles (snd (update_elo now db roomId)) roomId room subs userA' userB' \<and>
           prof_id userA' = prof_id userA \<and> prof_id userB' = prof_id userB \<and>
           total_debates userA' = Some (or_zero (total_debates userA) + 1) \<and>
           total_debates userB' = Some (or_zero (total_debates userB) + 1)"
proof -
  from settled_store [OF st] obtain nA sA nB sB h where
    db1: "snd (update_elo now db roomId) =
             db\<lparr> profiles := update_profile userB (room_format room) nB sB
                               (update_profile userA (room_format room) nA sA (profiles db)),
                 match_history := match_history db @ [h] \<rparr>"
    by blast
  let ?db1 = "snd (update_elo now db roomId)"
  let ?fmt = "room_format room"
  from settles_profiles [OF st] obtain rest where
    e: "select_profiles db (map part_user_id (select_participants db roomId)) = userA # userB # rest"
    by blast
  note f = settles_facts [OF st]
  have parts: "select_participants ?db1 roomId = select_participants db roomId"
    unfolding db1 by (simp add: select_participants_def)
  have rooms: "select_room ?db1 roomId = select_room db roomId"
    unfolding db1 by (simp add: select_room_def)
  have subs: "select_submissions ?db1 roomId = select_submissions db roomId"
    unfolding db1 by (simp add: select_submissions_def)
  have profs: "select_profiles ?db1 (map part_user_id (select_participants db roomId)) =
      update_profile userB ?fmt nB sB (update_profile userA ?fmt nA sA (userA # userB # rest))"
    unfolding db1 select_profiles_update e ..
  have t: "take 2 (select_profiles ?db1 (map part_user_id (select_participants ?db1 roomId)))
      = [set_profile_fields userA ?fmt nA sA userA, set_profile_fields userB ?fmt nB sB userB]"
    unfolding parts profs using ids
    by (simp add: update_profile_def set_profile_fields_def)
  have "settles ?db1 roomId room subs
      (set_profile_fields userA ?fmt nA sA userA) (set_profile_fields userB ?fmt nB sB userB)"
    unfolding settles_def using f t by (simp add: rooms subs parts)
  moreover have "prof_id (set_profile_fields userA ?fmt nA sA userA) = prof_id userA"
    "prof_id (set_profile_fields userB ?fmt nB sB userB) = prof_id userB"
    "total_debates (set_profile_fields userA ?fmt nA sA userA) = Some (or_zero (total_debates userA) + 1)"
    "total_debates (set_profile_fields userB ?fmt nB sB userB) = Some (or_zero (total_debates userB) + 1)"
    by (simp_all add: set_profile_fields_def)
  ultimately show ?thesis by blast
qed


subsection \<open>Inconsistent submissions\<close>

text \<open>
  Claim C3.  On a ranked human-vs-human room with exactly two result submissions that are
  neither a win with a loss (in either order) nor two draws, the handler answers with the
  error \<open>Inconsistent results\<close> (status 400) and returns the store exactly as it was: no
  profile is written, no history row is inserted, and room and submissions are untouched.
\<close>

theorem inconsistent_results_no_update:
  assumes "roomId \<noteq> []" "select_room db roomId = [room]"
    and "room_mode room = Ranked" "\<not> is_ai_opponent room"
    and "select_submissions db roomId = [s1, s2]"
    and "\<not> ((submitted_result s1 = Win \<and> submitted_result s2 = Loss) \<or>
            (submitted_result s1 = Loss \<and> submitted_result s2 = Win) \<or>
            (submitted_result s1 = Draw \<and> submitted_result s2 = Draw))"
  shows "update_elo now db roomId = (Json_error ''Inconsistent results'' 400, db)"
proof -
  have "\<not> consistent_results (map submitted_result [s1, s2])"
    using assms(6) unfolding consistent_results_def
    by (cases "submitted_result s1"; cases "submitted_result s2") simp_all
  with assms(1-5) show ?thesis
    unfolding update_elo_def by (simp add: Let_def)
qed

theorem inconsistent_results_no_update_witness:
  "update_elo 0 (ex_store Win Win) ''r1'' = (Json_error ''Inconsistent results'' 400, ex_store Win Win)"
proof -
  have h1: "''r1'' \<noteq> []" by simp
  have h2: "select_room (ex_store Win Win) ''r1'' = [ex_room]"
    by (simp add: ex_defs select_room_def)
  have h3: "room_mode ex_room = Ranked" "\<not> is_ai_opponent ex_room"
    by (simp_all add: ex_room_def)
  have h4: "select_submissions (ex_store Win Win) ''r1'' =
      [ex_submission ''alice'' Win, ex_submission ''bob'' Win]"
    by (simp add: ex_defs select_submissions_def)
  have h5: "\<not> ((submitted_result (ex_submission ''alice'' Win) = Win \<and>
               submitted_result (ex_submission ''bob'' Win) = Loss) \<or>
            (submitted_result (ex_submission ''alice'' Win) = Loss \<and>
               submitted_result (ex_submission ''bob'' Win) = Win) \<or>
            (submitted_result (ex_submission ''alice'' Win) = Draw \<and>
               submitted_result (ex_submission ''bob'' Win) = Draw))"
    by (simp add: ex_submission_def)
  show ?thesis
    by (rule inconsistent_results_no_update [OF h1 h2 h3 h4 h5])
qed

subsection \<open>The rating formula\<close>

lemmas rated_defs = ex_rated_store_def ex_alice_def ex_bob_def ex_rated_profile_def ex_store_def
  ex_room_def ex_submission_def







subsection \<open>Counters on a draw\<close>

text \<open>
  Claim C10.  When every submission is a draw, the settlement still writes both profile
  rows: the stored number of debates of each side is the number read (a null counter
  counting as 0) plus one, the current streak of each side is set to zero, and the number
  of wins of each side is left as it was read.
\<close>

theorem draw_counts_and_streak:
  assumes st: "settles db roomId room subs userA userB"
    and dr: "list_all (\<lambda>s. submitted_result s = Draw) subs"
    and ids: "prof_id userA \<noteq> prof_id userB"
  shows "\<exists>pa pb.
           profile_by_id (snd (update_elo now db roomId)) (prof_id userA) = Some pa \<and>
           profile_by_id (snd (update_elo now db roomId)) (prof_id userB) = Some pb \<and>
           total_debates pa = Some ((case total_debates userA of None \<Rightarrow> 0 | Some n \<Rightarrow> n) + 1) \<and>
           total_debates pb = Some ((case total_debates userB of None \<Rightarrow> 0 | Some n \<Rightarrow> n) + 1) \<and>
           current_streak pa = Some 0 \<and> current_streak pb = Some 0 \<and>
           total_wins pa = total_wins userA \<and> total_wins pb = total_wins userB"
proof -
  have d: "list_all (\<lambda>r. r = Draw) (map submitted_result subs)"
    using dr by (simp add: list_all_iff)
  have sc: "actual_scores (list_all (\<lambda>r. r = Draw) (map submitted_result subs))
           (if list_all (\<lambda>r. r = Draw) (map submitted_result subs) then None
            else winner_of subs) userA = (1 / 2, 1 / 2)"
    by (simp add: d actual_scores_def)
  note out = settled_outcome [OF st ids sc refl refl]
  from out(2) obtain p where
    p: "profile_by_id (snd (update_elo now db roomId)) (prof_id userA) =
          Some (set_profile_fields userA (room_format room)
            (new_rating (rating_of userA (room_format room)) (1 / 2)
              (expected_score (rating_of userA (room_format room)) (rating_of userB (room_format room))))
            (1 / 2) p)"
    by blast
  from out(3) obtain q where
    q: "profile_by_id (snd (update_elo now db roomId)) (prof_id userB) =
          Some (set_profile_fields userB (room_format room)
            (new_rating (rating_of userB (room_format room)) (1 / 2)
              (expected_score (rating_of userB (room_format room)) (rating_of userA (room_format room))))
            (1 / 2) q)"
    by blast
  show ?thesis
    by (simp add: p q set_profile_fields_def or_zero_def)
qed

theorem draw_counts_and_streak_witness:
  "\<exists>pa pb.
     profile_by_id (snd (update_elo 0 (ex_rated_store Draw Draw) ''r1'')) ''pa'' = Some pa \<and>
     profile_by_id (snd (update_elo 0 (ex_rated_store Draw Draw) ''r1'')) ''pb'' = Some pb \<and>
     total_debates pa = Some 8 \<and> total_debates pb = Some 1 \<and>
     current_streak pa = Some 0 \<and> current_streak pb = Some 0 \<and>
     total_wins pa = Some 3 \<and> total_wins pb = None"
proof -
  have st: "settles (ex_rated_store Draw Draw) ''r1'' ex_room
      [ex_submission ''alice'' Draw, ex_submission ''bob'' Draw] ex_alice ex_bob"
    by (simp add: settles_def rated_defs query_defs consistent_results_def)
  have dr: "list_all (\<lambda>s. submitted_result s = Draw)
      [ex_submission ''alice'' Draw, ex_submission ''bob'' Draw]"
    by (simp add: ex_submission_def)
  have i: "prof_id ex_alice \<noteq> prof_id ex_bob"
    by (simp add: rated_defs)
  have f: "prof_id ex_alice = ''pa''" "prof_id ex_bob = ''pb''"
    "total_debates ex_alice = Some 7" "total_debates ex_bob = None"
    "total_wins ex_alice = Some 3" "total_wins ex_bob = None"
    by (simp_all add: rated_defs)
  from draw_counts_and_streak [OF st dr i, of 0, unfolded f] show ?thesis
    by simp
qed

subsection \<open>Equal ratings of 1200\<close>

text \<open>
  Claim C2, as stated, fails: at a rating of exactly 1200 the test \<open>rating < 1200\<close> is false,
  so the K-factor is 20, not 40, and a win between two sides rated 1200 changes the ratings
  by 10, not by 20.
\<close>

theorem equal_ratings_1200_counterexample:
  "getKFactor 1200 \<noteq> 40 \<and>
   fst (update_elo 0 (ex_store Win Loss) ''r1'') \<noteq> Elo_updated 20 (- 20)"
  by (simp add: ex_defs elo_defs Let_def)

text \<open>
  Claim C2, amended.  For two sides whose stored rating for the room's format is 1200 and
  a win submitted by side A with a loss submitted by side B, the handler uses K = 20 for
  both sides, the expected score of A is 1/2, the response carries a change of +10 for A
  and of -10 for B, and the change is applied: the profile row of A is written with the
  rating 1210 for the room's format, the row of B with 1190, and one history row for the
  room is appended.
\<close>

theorem equal_ratings_1200:
  assumes st: "settles db roomId room [s1, s2] userA userB"
    and o: "(s1 = sA \<and> s2 = sB) \<or> (s1 = sB \<and> s2 = sA)"
    and a: "sub_user_id sA = prof_user_id userA"
    and b: "sub_user_id sB = prof_user_id userB"
    and users: "prof_user_id userA \<noteq> prof_user_id userB"
      "prof_user_id userA \<noteq> []" "prof_user_id userB \<noteq> []"
    and ids: "prof_id userA \<noteq> prof_id userB"
    and res: "submitted_result sA = Win" "submitted_result sB = Loss"
    and elo: "elo_by_format userA (room_format room) = Some 1200"
      "elo_by_format userB (room_format room) = Some 1200"
  shows "getKFactor (rating_of userA (room_format room)) = 20 \<and>
         getKFactor (rating_of userB (room_format room)) = 20 \<and>
         expected_score (rating_of userA (room_format room)) (rating_of userB (room_format room))
           = 1 / 2 \<and>
         fst (update_elo now db roomId) = Elo_updated 10 (- 10) \<and>
         (\<exists>p. profile_by_id (snd (update_elo now db roomId)) (prof_id userA) = Some p \<and>
               elo_by_format p = (elo_by_format userA)(room_format room \<mapsto> 1210)) \<and>
         (\<exists>p. profile_by_id (snd (update_elo now db roomId)) (prof_id userB) = Some p \<and>
               elo_by_format p = (elo_by_format userB)(room_format room \<mapsto> 1190)) \<and>
         (\<exists>h. match_history (snd (update_elo now db roomId)) = match_history db @ [h] \<and>
               mh_room_id h = roomId)"
proof -
  have r: "rating_of userA (room_format room) = 1200" "rating_of userB (room_format room) = 1200"
    using elo by (simp_all add: rating_of_def)
  have c: "consistent_results [submitted_result s1, submitted_result s2]"
    using settles_facts(7) [OF st] by simp
  have sc: "actual_scores (list_all (\<lambda>r. r = Draw) (map submitted_result [s1, s2]))
           (if list_all (\<lambda>r. r = Draw) (map submitted_result [s1, s2]) then None
            else winner_of [s1, s2]) userA
         = (actual_of_result (submitted_result sA), actual_of_result (submitted_result sB))"
    using c o a users b by (intro scores_two) simp_all
  have nA: "new_rating 1200 (actual_of_result Win) (expected_score 1200 1200) = 1210"
    and nB: "new_rating 1200 (actual_of_result Loss) (expected_score 1200 1200) = 1190"
    by (simp_all add: actual_of_result_def new_rating_def expected_score_def getKFactor_def)
  note out = settled_outcome [OF st ids sc refl refl, of now, unfolded r res nA nB]
  from out(2) obtain p where
    p: "profile_by_id (snd (update_elo now db roomId)) (prof_id userA) =
          Some (set_profile_fields userA (room_format room) 1210 (actual_of_result Win) p)"
    by blast
  from out(3) obtain q where
    q: "profile_by_id (snd (update_elo now db roomId)) (prof_id userB) =
          Some (set_profile_fields userB (room_format room) 1190 (actual_of_result Loss) q)"
    by blast
  have k: "getKFactor 1200 = 20" "expected_score 1200 1200 = 1 / 2"
    by (simp_all add: getKFactor_def expected_score_def)
  have e: "fst (update_elo now db roomId) = Elo_updated 10 (- 10)"
    using out(1) by simp
  show ?thesis
    unfolding r k
    using e out(4) by (simp add: p q set_profile_fields_def)
qed

theorem equal_ratings_1200_witness:
  "getKFactor (rating_of (ex_profile ''pa'' ''alice'') (room_format ex_room)) = 20 \<and>
   getKFactor (rating_of (ex_profile ''pb'' ''bob'') (room_format ex_room)) = 20 \<and>
   expected_score (rating_of (ex_profile ''pa'' ''alice'') (room_format ex_room))
     (rating_of (ex_profile ''pb'' ''bob'') (room_format ex_room)) = 1 / 2 \<and>
   fst (update_elo 7 (ex_store Win Loss) ''r1'') = Elo_updated 10 (- 10) \<and>
   (\<exists>p. profile_by_id (snd (update_elo 7 (ex_store Win Loss) ''r1'')) ''pa'' = Some p \<and>
         elo_by_format p ''LD'' = Some 1210) \<and>
   (\<exists>p. profile_by_id (snd (update_elo 7 (ex_store Win Loss) ''r1'')) ''pb'' = Some p \<and>
         elo_by_format p ''LD'' = Some 1190) \<and>
   (\<exists>h. match_history (snd (update_elo 7 (ex_store Win Loss) ''r1'')) = [h] \<and>
         mh_room_id h = ''r1'')"
proof -
  have st: "settles (ex_store Win Loss) ''r1'' ex_room
      [ex_submission ''alice'' Win, ex_submission ''bob'' Loss]
      (ex_profile ''pa'' ''alice'') (ex_profile ''pb'' ''bob'')"
    by (simp add: settles_def ex_defs query_defs consistent_results_def)
  have o: "(ex_submission ''alice'' Win = ex_submission ''alice'' Win \<and>
            ex_submission ''bob'' Loss = ex_submission ''bob'' Loss) \<or>
           (ex_submission ''alice'' Win = ex_submission ''bob'' Loss \<and>
            ex_submission ''bob'' Loss = ex_submission ''alice'' Win)"
    by simp
  have a: "sub_user_id (ex_submission ''alice'' Win) = prof_user_id (ex_profile ''pa'' ''alice'')"
    and b: "sub_user_id (ex_submission ''bob'' Loss) = prof_user_id (ex_profile ''pb'' ''bob'')"
    and u: "prof_user_id (ex_profile ''pa'' ''alice'') \<noteq> prof_user_id (ex_profile ''pb'' ''bob'')"
      "prof_user_id (ex_profile ''pa'' ''alice'') \<noteq> []"
      "prof_user_id (ex_profile ''pb'' ''bob'') \<noteq> []"
    and i: "prof_id (ex_profile ''pa'' ''alice'') \<noteq> prof_id (ex_profile ''pb'' ''bob'')"
    and r: "submitted_result (ex_submission ''alice'' Win) = Win"
      "submitted_result (ex_submission ''bob'' Loss) = Loss"
    and e: "elo_by_format (ex_profile ''pa'' ''alice'') (room_format ex_room) = Some 1200"
      "elo_by_format (ex_profile ''pb'' ''bob'') (room_format ex_room) = Some 1200"
    by (simp_all add: ex_defs)
  have f: "prof_id (ex_profile ''pa'' ''alice'') = ''pa''" "prof_id (ex_profile ''pb'' ''bob'') = ''pb''"
    "room_format ex_room = ''LD''" "match_history (ex_store Win Loss) = []"
    by (simp_all add: ex_defs)
  note t = equal_ratings_1200 [OF st o a b u i r e, of 7]
  from t show ?thesis
    unfolding f by auto
qed


subsection \<open>Settling the same room twice\<close>

text \<open>
  Claim C1, as stated, fails: the handler never looks at the history table or at the status
  of the room.  Run twice on the sample room (completed, ranked, win against loss), it
  leaves two history rows, and each profile has been written twice (two debates counted).
\<close>

theorem settle_twice_not_idempotent_counterexample:
  "length (match_history (snd (update_elo 9 (snd (update_elo 0 (ex_store Win Loss) ''r1'')) ''r1''))) = 2 \<and>
   map_option total_debates
     (profile_by_id (snd (update_elo 9 (snd (update_elo 0 (ex_store Win Loss) ''r1'')) ''r1'')) ''pa'')
     = Some (Some 2) \<and>
   map_option total_debates
     (profile_by_id (snd (update_elo 9 (snd (update_elo 0 (ex_store Win Loss) ''r1'')) ''r1'')) ''pb'')
     = Some (Some 2)"
  by (simp add: ex_defs elo_defs Let_def profile_by_id_def)

text \<open>
  Claim C1, amended.  On a ranked human-vs-human room with consistent submissions, every
  invocation settles: the second invocation on the store left by the first succeeds again,
  the history table ends with two rows for the room, and the debate counter of each side
  has gone up by one after the first invocation and by two after the second.
\<close>

theorem settle_twice_settles_twice:
  assumes st: "settles db roomId room subs userA userB"
    and ids: "prof_id userA \<noteq> prof_id userB"
  shows "let db1 = snd (update_elo now db roomId);
             r2 = update_elo now' db1 roomId;
             db2 = snd r2
         in (\<exists>dA dB. fst r2 = Elo_updated dA dB) \<and>
            (\<exists>h1 h2. match_history db2 = match_history db @ [h1, h2] \<and>
                      mh_room_id h1 = roomId \<and> mh_room_id h2 = roomId) \<and>
            map_option total_debates (profile_by_id db1 (prof_id userA))
              = Some (Some (or_zero (total_debates userA) + 1)) \<and>
            map_option total_debates (profile_by_id db1 (prof_id userB))
              = Some (Some (or_zero (total_debates userB) + 1)) \<and>
            map_option total_debates (profile_by_id db2 (prof_id userA))
              = Some (Some (or_zero (total_debates userA) + 2)) \<and>
            map_option total_debates (profile_by_id db2 (prof_id userB))
              = Some (Some (or_zero (total_debates userB) + 2))"
proof -
  let ?db1 = "snd (update_elo now db roomId)"
  let ?db2 = "snd (update_elo now' ?db1 roomId)"
  note o1 = settled_outcome [OF st ids scores_pair refl refl, of now]
  from settles_again [OF st ids, of now] obtain userA' userB' where
    st1: "settles ?db1 roomId room subs userA' userB'"
    and k: "prof_id userA' = prof_id userA" "prof_id userB' = prof_id userB"
      "total_debates userA' = Some (or_zero (total_debates userA) + 1)"
      "total_debates userB' = Some (or_zero (total_debates userB) + 1)"
    by blast
  have ids1: "prof_id userA' \<noteq> prof_id userB'"
    using ids k by simp
  note o2 = settled_outcome [OF st1 ids1 scores_pair refl refl, of now']
  have a: "\<exists>dA dB. fst (update_elo now' ?db1 roomId) = Elo_updated dA dB"
    using o2(1) by blast
  from o1(4) obtain h1 where h1: "match_history ?db1 = match_history db @ [h1]" "mh_room_id h1 = roomId"
    by blast
  from o2(4) obtain h2 where h2: "match_history ?db2 = match_history ?db1 @ [h2]" "mh_room_id h2 = roomId"
    by blast
  have b: "\<exists>h1 h2. match_history ?db2 = match_history db @ [h1, h2] \<and>
                      mh_room_id h1 = roomId \<and> mh_room_id h2 = roomId"
    using h1 h2 by simp
  from o1(2) have c1: "map_option total_debates (profile_by_id ?db1 (prof_id userA))
              = Some (Some (or_zero (total_debates userA) + 1))"
    by (auto simp add: set_profile_fields_def)
  from o1(3) have c2: "map_option total_debates (profile_by_id ?db1 (prof_id userB))
              = Some (Some (or_zero (total_debates userB) + 1))"
    by (auto simp add: set_profile_fields_def)
  from o2(2) obtain pA nA sA where
    "profile_by_id ?db2 (prof_id userA') =
       Some (set_profile_fields userA' (room_format room) nA sA pA)"
    by blast
  then have d1: "map_option total_debates (profile_by_id ?db2 (prof_id userA))
              = Some (Some (or_zero (total_debates userA) + 2))"
    by (simp add: k or_zero_Some set_profile_fields_def)
  from o2(3) obtain pB nB sB where
    "profile_by_id ?db2 (prof_id userB') =
       Some (set_profile_fields userB' (room_format room) nB sB pB)"
    by blast
  then have d2: "map_option total_debates (profile_by_id ?db2 (prof_id userB))
              = Some (Some (or_zero (total_debates userB) + 2))"
    by (simp add: k or_zero_Some set_profile_fields_def)
  show ?thesis
    unfolding Let_def using a b c1 c2 d1 d2 by blast
qed

theorem settle_twice_settles_twice_witness:
  "(\<exists>dA dB. fst (update_elo 9 (snd (update_elo 0 (ex_store Draw Draw) ''r1'')) ''r1'')
      = Elo_updated dA dB) \<and>
   (\<exists>h1 h2. match_history (snd (update_elo 9 (snd (update_elo 0 (ex_store Draw Draw) ''r1'')) ''r1''))
      = [h1, h2] \<and> mh_room_id h1 = ''r1'' \<and> mh_room_id h2 = ''r1'') \<and>
   map_option total_debates
     (profile_by_id (snd (update_elo 9 (snd (update_elo 0 (ex_store Draw Draw) ''r1'')) ''r1'')) ''pb'')
     = Some (Some 2)"
proof -
  have st: "settles (ex_store Draw Draw) ''r1'' ex_room
      [ex_submission ''alice'' Draw, ex_submission ''bob'' Draw]
      (ex_profile ''pa'' ''alice'') (ex_profile ''pb'' ''bob'')"
    by (simp add: settles_def ex_defs query_defs consistent_results_def)
  have i: "prof_id (ex_profile ''pa'' ''alice'') \<noteq> prof_id (ex_profile ''pb'' ''bob'')"
    by (simp add: ex_defs)
  have m: "match_history (ex_store Draw Draw) = []"
    "prof_id (ex_profile ''pb'' ''bob'') = ''pb''"
    "or_zero (total_debates (ex_profile ''pb'' ''bob'')) = 0"
    by (simp_all add: ex_defs or_zero_def)
  from settle_twice_settles_twice [OF st i, of 0 9] show ?thesis
    unfolding Let_def m by simp
qed

section \<open>Properties of the queue store\<close>

lemmas queue_ex_defs = ex_queue_store_def ex_entry_def ex_settings_def ex_profile_def

lemma waiting_users_filter:
  "waiting_users (filter P q) = map qe_user_id (filter P (filter (\<lambda>e. qe_status e = Waiting) q))"
  unfolding waiting_users_def by (induction q) simp_all

lemma index_filter:
  assumes "one_active_queue_per_user_waiting q"
  shows "one_active_queue_per_user_waiting (filter P q)"
  using assms unfolding one_active_queue_per_user_waiting_def waiting_users_filter
  unfolding waiting_users_def by (rule distinct_map_filter)

lemma waiting_users_heartbeat:
  "waiting_users (map (\<lambda>e. if qe_id e = i \<and> qe_status e = Waiting
                              then e\<lparr> qe_last_heartbeat_at := t \<rparr> else e) q) = waiting_users q"
  unfolding waiting_users_def by (induction q) simp_all

lemma waiting_users_matched:
  "waiting_users (map (\<lambda>e. if qe_id e = i \<and> qe_user_id e = u
                              then e\<lparr> qe_status := Matched, qe_matched_at := t, qe_room_id := r \<rparr>
                              else e) q)
   = waiting_users (filter (\<lambda>e. \<not> (qe_id e = i \<and> qe_user_id e = u)) q)"
  unfolding waiting_users_def by (induction q) simp_all

lemma waiting_users_append:
  "waiting_users (q @ [e]) = waiting_users q @ (if qe_status e = Waiting then [qe_user_id e] else [])"
  unfolding waiting_users_def by simp

lemma index_insert:
  assumes "one_active_queue_per_user_waiting q" "insert_queue_entry e q = Inr q'"
  shows "one_active_queue_per_user_waiting q'"
  using assms
  unfolding one_active_queue_per_user_waiting_def insert_queue_entry_def
  by (auto simp add: waiting_users_append split: if_splits)

lemma no_waiting_after_delete:
  "uid \<notin> set (waiting_users (delete_waiting_of_user uid q))"
  unfolding waiting_users_def delete_waiting_of_user_def by auto

lemma joinQueue_logged_in:
  "joinQueue (Some (uid, prof)) settings new_id now db =
     (Joined \<lparr> qe_id = new_id, qe_user_id = uid, qe_format = ms_format settings,
                qe_mode = ms_mode settings, qe_opponent_type = ms_opponentType settings,
                qe_elo = rating_of prof (ms_format settings), qe_status = Waiting,
                qe_joined_at = now, qe_last_heartbeat_at = now, qe_matched_at = None,
                qe_room_id = None \<rparr>
        (if ms_opponentType settings = Human_then_ai \<or> ms_opponentType settings = Ai_only
         then Some (if ms_opponentType settings = Ai_only then 0 else AI_FALLBACK_TIMEOUT)
         else None),
      db\<lparr> match_queue_entries :=
            delete_waiting_of_user uid (match_queue_entries db) @
            [\<lparr> qe_id = new_id, qe_user_id = uid, qe_format = ms_format settings,
               qe_mode = ms_mode settings, qe_opponent_type = ms_opponentType settings,
               qe_elo = rating_of prof (ms_format settings), qe_status = Waiting,
               qe_joined_at = now, qe_last_heartbeat_at = now, qe_matched_at = None,
               qe_room_id = None \<rparr>] \<rparr>)"
  unfolding joinQueue_def insert_queue_entry_def
  by (simp add: Let_def no_waiting_after_delete)

lemma index_joinQueue:
  assumes "one_active_queue_per_user_waiting (match_queue_entries db)"
  shows "one_active_queue_per_user_waiting
           (match_queue_entries (snd (joinQueue login settings new_id now db)))"
proof (cases login)
  case None
  with assms show ?thesis by (simp add: joinQueue_def)
next
  case (Some l)
  obtain uid prof where l: "l = (uid, prof)" by (cases l)
  have d: "one_active_queue_per_user_waiting (delete_waiting_of_user uid (match_queue_entries db))"
    unfolding delete_waiting_of_user_def by (rule index_filter [OF assms])
  show ?thesis
    unfolding Some l joinQueue_logged_in
    using d no_waiting_after_delete [of uid "match_queue_entries db"]
    by (simp add: one_active_queue_per_user_waiting_def waiting_users_append)
qed

lemma index_createAIMatch:
  assumes "one_active_queue_per_user_waiting (match_queue_entries db)"
  shows "one_active_queue_per_user_waiting
           (match_queue_entries (snd (createAIMatch user new_room_id now e db)))"
proof (cases user)
  case None
  with assms show ?thesis by (simp add: createAIMatch_def)
next
  case (Some uid)
  show ?thesis
  proof (cases "is_room_participant db new_room_id uid \<or> is_admin db uid")
    case False
    with Some assms show ?thesis
      by (simp add: createAIMatch_def insert_debate_room_def Let_def)
  next
    case True
    with Some index_filter [OF assms, of "\<lambda>x. \<not> (qe_id x = qe_id e \<and> qe_user_id x = uid)"]
    show ?thesis
      by (simp add: createAIMatch_def insert_debate_room_def Let_def
          one_active_queue_per_user_waiting_def waiting_users_matched)
  qed
qed

lemma index_perform:
  assumes "one_active_queue_per_user_waiting (match_queue_entries db)"
  shows "one_active_queue_per_user_waiting (match_queue_entries (perform r db))"
proof (cases r)
  case (Join_queue login settings new_id now)
  then show ?thesis using index_joinQueue [OF assms] by simp
next
  case (Cancel_queue queueEntry)
  then show ?thesis
    using assms index_filter [OF assms]
    by (simp add: cancelQueue_def delete_waiting_entry_def split: option.splits)
next
  case (Heartbeat entryId now)
  then show ?thesis
    using assms
    by (simp add: sendHeartbeat_def one_active_queue_per_user_waiting_def waiting_users_heartbeat)
next
  case (Ai_fallback user new_room_id now entryId)
  with assms index_createAIMatch [OF assms] show ?thesis
    by (simp add: ai_fallback_def split: option.splits)
qed

lemma index_perform_all:
  assumes "one_active_queue_per_user_waiting (match_queue_entries db)"
  shows "one_active_queue_per_user_waiting (match_queue_entries (perform_all reqs db))"
  using assms unfolding perform_all_def
proof (induction reqs arbitrary: db)
  case Nil
  then show ?case by simp
next
  case (Cons r reqs)
  from Cons.IH [OF index_perform [OF Cons.prems]] show ?case by simp
qed

lemma waiting_of_joined:
  "waiting_of uid (db\<lparr> match_queue_entries := delete_waiting_of_user uid q @ [e] \<rparr>) =
     (if qe_user_id e = uid \<and> qe_status e = Waiting then [e] else [])"
  unfolding waiting_of_def delete_waiting_of_user_def
  by (auto simp add: filter_empty_conv)

lemma others_kept:
  "filter (\<lambda>e. qe_user_id e \<noteq> uid) (delete_waiting_of_user uid q) = filter (\<lambda>e. qe_user_id e \<noteq> uid) q"
  unfolding delete_waiting_of_user_def by (induction q) auto

lemma insert_rejected_iff:
  "(insert_queue_entry e (match_queue_entries db) = Inl Unique_violation) =
     (qe_status e = Waiting \<and> waiting_of (qe_user_id e) db \<noteq> [])"
  unfolding insert_queue_entry_def waiting_of_def waiting_users_def
  by (auto simp add: filter_empty_conv image_iff)

subsection \<open>One waiting entry per user\<close>

text \<open>
  Claim C8.  From a queue table that satisfies the partial unique index, every run of the
  requests the hook sends (join, cancel, heartbeat, AI fallback) leaves a table in which no
  user has two waiting entries.  \<open>joinQueue\<close> of a logged-in user always succeeds: it removes
  the waiting entries of that user, appends one new waiting entry, which is then the only
  waiting entry of the user, and leaves the entries of every other user alone.  The index
  rejects an insert exactly when the new row is waiting and its user already has a waiting
  row.
\<close>

theorem at_most_one_waiting_entry:
  assumes "one_active_queue_per_user_waiting (match_queue_entries db)"
  shows "one_active_queue_per_user_waiting (match_queue_entries (perform_all reqs db)) \<and>
         (\<exists>entry delay db'.
            joinQueue (Some (uid, prof)) settings new_id now db = (Joined entry delay, db') \<and>
            qe_id entry = new_id \<and> qe_status entry = Waiting \<and> qe_user_id entry = uid \<and>
            match_queue_entries db' = delete_waiting_of_user uid (match_queue_entries db) @ [entry] \<and>
            waiting_of uid db' = [entry] \<and>
            filter (\<lambda>e. qe_user_id e \<noteq> uid) (match_queue_entries db')
              = filter (\<lambda>e. qe_user_id e \<noteq> uid) (match_queue_entries db)) \<and>
         ((insert_queue_entry e (match_queue_entries db) = Inl Unique_violation) =
            (qe_status e = Waiting \<and> waiting_of (qe_user_id e) db \<noteq> []))"
proof (intro conjI)
  show "one_active_queue_per_user_waiting (match_queue_entries (perform_all reqs db))"
    by (rule index_perform_all [OF assms])
  show "\<exists>entry delay db'.
            joinQueue (Some (uid, prof)) settings new_id now db = (Joined entry delay, db') \<and>
            qe_id entry = new_id \<and> qe_status entry = Waiting \<and> qe_user_id entry = uid \<and>
            match_queue_entries db' = delete_waiting_of_user uid (match_queue_entries db) @ [entry] \<and>
            waiting_of uid db' = [entry] \<and>
            filter (\<lambda>e. qe_user_id e \<noteq> uid) (match_queue_entries db')
              = filter (\<lambda>e. qe_user_id e \<noteq> uid) (match_queue_entries db)"
    unfolding joinQueue_logged_in
    by (simp add: waiting_of_joined others_kept)
  show "(insert_queue_entry e (match_queue_entries db) = Inl Unique_violation) =
            (qe_status e = Waiting \<and> waiting_of (qe_user_id e) db \<noteq> [])"
    by (rule insert_rejected_iff)
qed

theorem at_most_one_waiting_entry_witness:
  "one_active_queue_per_user_waiting (match_queue_entries ex_queue_store) \<and>
   one_active_queue_per_user_waiting (match_queue_entries
     (perform_all [Join_queue (Some (''alice'', ex_profile ''pa'' ''alice'')) ex_settings ''e3'' 200,
                   Heartbeat ''e3'' 5200,
                   Ai_fallback (Some ''alice'') ''room-ai'' 30200 ''e3'',
                   Join_queue (Some (''alice'', ex_profile ''pa'' ''alice'')) ex_settings ''e4'' 99000]
        ex_queue_store)) \<and>
   waiting_of ''alice'' (snd (joinQueue (Some (''alice'', ex_profile ''pa'' ''alice'')) ex_settings
       ''e3'' 200 ex_queue_store))
     = [(ex_entry ''e3'' ''alice'' Waiting) \<lparr> qe_joined_at := 200, qe_last_heartbeat_at := 200 \<rparr>]"
proof -
  have h: "one_active_queue_per_user_waiting (match_queue_entries ex_queue_store)"
    by (simp add: one_active_queue_per_user_waiting_def waiting_users_def queue_ex_defs)
  from at_most_one_waiting_entry [OF h,
      of "[Join_queue (Some (''alice'', ex_profile ''pa'' ''alice'')) ex_settings ''e3'' 200,
           Heartbeat ''e3'' 5200,
           Ai_fallback (Some ''alice'') ''room-ai'' 30200 ''e3'',
           Join_queue (Some (''alice'', ex_profile ''pa'' ''alice'')) ex_settings ''e4'' 99000]"
         "''alice''" "ex_profile ''pa'' ''alice''" ex_settings "''e3''" 200]
  have a: "one_active_queue_per_user_waiting (match_queue_entries
     (perform_all [Join_queue (Some (''alice'', ex_profile ''pa'' ''alice'')) ex_settings ''e3'' 200,
                   Heartbeat ''e3'' 5200,
                   Ai_fallback (Some ''alice'') ''room-ai'' 30200 ''e3'',
                   Join_queue (Some (''alice'', ex_profile ''pa'' ''alice'')) ex_settings ''e4'' 99000]
        ex_queue_store))"
    and b: "\<exists>entry delay db'.
        joinQueue (Some (''alice'', ex_profile ''pa'' ''alice'')) ex_settings ''e3'' 200 ex_queue_store
          = (Joined entry delay, db') \<and>
        qe_id entry = ''e3'' \<and> qe_status entry = Waiting \<and> qe_user_id entry = ''alice'' \<and>
        match_queue_entries db' =
          delete_waiting_of_user ''alice'' (match_queue_entries ex_queue_store) @ [entry] \<and>
        waiting_of ''alice'' db' = [entry] \<and>
        filter (\<lambda>e. qe_user_id e \<noteq> ''alice'') (match_queue_entries db')
          = filter (\<lambda>e. qe_user_id e \<noteq> ''alice'') (match_queue_entries ex_queue_store)"
    by blast+
  have c: "fst (joinQueue (Some (''alice'', ex_profile ''pa'' ''alice'')) ex_settings ''e3'' 200
      ex_queue_store)
    = Joined ((ex_entry ''e3'' ''alice'' Waiting) \<lparr> qe_joined_at := 200, qe_last_heartbeat_at := 200 \<rparr>)
        (Some AI_FALLBACK_TIMEOUT)"
    by (simp add: joinQueue_logged_in queue_ex_defs rating_of_def)
  from b c have "waiting_of ''alice'' (snd (joinQueue (Some (''alice'', ex_profile ''pa'' ''alice''))
       ex_settings ''e3'' 200 ex_queue_store))
     = [(ex_entry ''e3'' ''alice'' Waiting) \<lparr> qe_joined_at := 200, qe_last_heartbeat_at := 200 \<rparr>]"
    by auto
  with h a show ?thesis by blast
qed

subsection \<open>The AI fallback and an entry that was matched meanwhile\<close>

lemmas queue_defs = createAIMatch_def insert_debate_room_def is_admin_def
  is_room_participant_def fallback_read_def ai_fallback_def

lemmas admin_ex_defs = ex_admin_store_def ex_admin_claimed_store_def ex_claimed_store_def

text \<open>
  Claim C9.  The timer callback reads the entry and goes on only if it is waiting, but the
  update that \<open>createAIMatch\<close> sends afterwards selects the row by id alone, not by id and
  status as \<open>sendHeartbeat\<close> and \<open>cancelQueue\<close> do.  For a user with the admin role, whose
  room insert the store accepts: the timer reads \<open>e1\<close> as waiting; in the store where \<open>e1\<close>
  has meanwhile been matched to \<open>room-h\<close> by another writer, \<open>createAIMatch\<close> with the entry
  it read still creates its AI room and moves \<open>e1\<close> to \<open>matched\<close> a second time, now
  pointing to \<open>room-ai\<close>.  For a user without the admin role the room insert is refused,
  the error is thrown, and \<open>createAIMatch\<close> writes nothing, also when the entry is still
  waiting.
\<close>

theorem fallback_overwrites_matched_entry:
  "fallback_read ex_admin_store ''e1'' = Some (ex_entry ''e1'' ''alice'' Waiting) \<and>
   map (\<lambda>e. (qe_status e, qe_room_id e))
     (filter (\<lambda>e. qe_id e = ''e1'') (match_queue_entries ex_admin_claimed_store))
     = [(Matched, Some ''room-h'')] \<and>
   fst (createAIMatch (Some ''alice'') ''room-ai'' 31000 (ex_entry ''e1'' ''alice'' Waiting)
          ex_admin_claimed_store)
     = Ai_matched ''room-ai'' \<and>
   map (\<lambda>e. (qe_status e, qe_room_id e))
     (filter (\<lambda>e. qe_id e = ''e1'')
        (match_queue_entries
           (snd (createAIMatch (Some ''alice'') ''room-ai'' 31000
                   (ex_entry ''e1'' ''alice'' Waiting) ex_admin_claimed_store))))
     = [(Matched, Some ''room-ai'')] \<and>
   map (\<lambda>r. (room_id r, is_ai_opponent r))
     (debate_rooms
        (snd (createAIMatch (Some ''alice'') ''room-ai'' 31000
                (ex_entry ''e1'' ''alice'' Waiting) ex_admin_claimed_store)))
     = [(''room-ai'', True)] \<and>
   createAIMatch (Some ''alice'') ''room-ai'' 31000 (ex_entry ''e1'' ''alice'' Waiting)
       ex_claimed_store
     = (Ai_match_failed Rls_violation, ex_claimed_store) \<and>
   ai_fallback (Some ''alice'') ''room-ai'' 31000 ''e1'' ex_queue_store = ex_queue_store"
  by (simp add: queue_defs admin_ex_defs queue_ex_defs Let_def)

section \<open>Properties of advance_debate_phase\<close>

text \<open>
  Claim C6.  The function is written as a compare-and-swap on \<open>current_phase\<close>, but because
  \<open>v_updated\<close> is declared \<open>BOOLEAN\<close> the statement \<open>RETURN v_updated > 0\<close> cannot be
  evaluated: whatever the arguments and the table, the call never returns \<open>true\<close> and the
  table after the call is the table before it.  In particular, on a room whose stored
  phase is \<open>prep\<close>, the call with expected phase \<open>prep\<close> and next phase
  \<open>prop_constructive\<close> raises \<open>undefined_function\<close> and the stored phase stays \<open>prep\<close>.
\<close>

theorem advance_debate_phase_raises:
  "(\<exists>err. advance_debate_phase p_room_id p_current_phase p_next_phase rooms = (Inl err, rooms)) \<and>
   advance_debate_phase (Some ''r1'') (Some ''prep'') (Some ''prop_constructive'')
       [ex_room \<lparr> current_phase := Some ''prep'' \<rparr>]
     = (Inl Undefined_function, [ex_room \<lparr> current_phase := Some ''prep'' \<rparr>])"
proof
  show "\<exists>err. advance_debate_phase p_room_id p_current_phase p_next_phase rooms = (Inl err, rooms)"
    by (cases "bigint_to_boolean (int (length (filter (phase_matches p_room_id p_current_phase) rooms)))")
      (simp_all add: advance_debate_phase_def Let_def)
  show "advance_debate_phase (Some ''r1'') (Some ''prep'') (Some ''prop_constructive'')
       [ex_room \<lparr> current_phase := Some ''prep'' \<rparr>]
     = (Inl Undefined_function, [ex_room \<lparr> current_phase := Some ''prep'' \<rparr>])"
    by (simp add: advance_debate_phase_def bigint_to_boolean_def phase_matches_def ex_room_def
        Let_def)
qed

section \<open>Properties of the live debate room\<close>

subsection \<open>Auxiliary facts about the page\<close>

lemmas handler_defs = fetchRoom_done_def on_participants_changed_def handleConnectAndStart_def
  broadcastReady_def handlePrepComplete_def prepTimer_tick_def countdown_auto_start_def
  countdown_tick_def countdown_confirm_def countdown_skip_def countdown_skip_round_def
  timer_tick_def requestAIJudgment_begin_def requestAIJudgment_end_def page_isVisible_def

lemma on_broadcast_id: "on_broadcast b c = c"
  by (cases b) simp_all

lemma before_speeches_remount: "before_speeches c \<Longrightarrow> before_speeches (remount c)"
  by (auto simp add: before_speeches_def remount_def Let_def)

lemma before_speeches_handle_event: "before_speeches c \<Longrightarrow> before_speeches (handle_event e c)"
  by (cases e) (auto simp add: before_speeches_def handler_defs on_broadcast_id Let_def
      split: option.splits)

lemma before_speeches_room_step: "before_speeches c \<Longrightarrow> before_speeches (room_step e c)"
  by (simp add: room_step_def before_speeches_remount before_speeches_handle_event)

lemma before_speeches_run_room: "before_speeches c \<Longrightarrow> before_speeches (run_room es c)"
  unfolding run_room_def
  by (induction es arbitrary: c) (simp_all add: before_speeches_room_step)

lemma before_speeches_initial_page: "before_speeches (initial_page uid)"
  by (simp add: before_speeches_def initial_page_def)

lemma getNextPhase_table:
  "getNextPhase Prop_constructive = Some Opp_constructive"
  "getNextPhase Opp_constructive = Some Prop_rebuttal"
  "getNextPhase Prop_rebuttal = Some Opp_rebuttal"
  "getNextPhase Opp_rebuttal = Some Prop_closing"
  "getNextPhase Prop_closing = Some Opp_closing"
  "getNextPhase Opp_closing = None"
  by (simp_all add: getNextPhase_def SPEECH_PHASES_def Let_def)

lemma run_ex_to_setup:
  "run_room ex_to_setup (initial_page u) = (initial_page u)\<lparr> hvhFormat := Rapid, phase := Setup \<rparr>"
  by (simp add: run_room_def ex_to_setup_def room_step_def handler_defs remount_def
      initial_page_def page_totalSeconds_def Let_def)

lemma run_ex_to_prep:
  "run_room ex_to_prep (initial_page u) =
     (initial_page u)\<lparr> hvhFormat := Rapid, phase := Prep, mediaReady := True, sent := [User_ready u] \<rparr>"
  by (simp add: run_room_def ex_to_prep_def ex_to_setup_def room_step_def handler_defs remount_def
      initial_page_def page_totalSeconds_def Let_def)

lemma run_ex_after_prep:
  "run_room ex_after_prep (initial_page u) =
     (initial_page u)\<lparr> hvhFormat := Rapid, phase := Prep, mediaReady := True, sent := [User_ready u],
        showTransition := True, nextPhaseAfterTransition := Some Prop_constructive \<rparr>"
  by (simp add: run_room_def ex_after_prep_def ex_to_prep_def ex_to_setup_def room_step_def
      handler_defs remount_def initial_page_def page_totalSeconds_def Let_def)


lemma phase_remount: "phase (remount c) = phase c"
  by (simp add: remount_def Let_def)

lemma phase_deliver: "phase (deliver bs c) = phase c"
  unfolding deliver_def
  by (induction bs arbitrary: c) (simp_all add: room_step_def phase_remount on_broadcast_id)

lemma phase_startPhase: "phase (startPhase p c) = p"
  by (simp add: startPhase_def broadcastPhaseChange_def)

subsection \<open>The speech phases\<close>

text \<open>
  Claim C7.  The page holds the order of the speeches in \<open>getNextPhase\<close>: after
  \<open>prop_constructive\<close> comes \<open>opp_constructive\<close>, then \<open>prop_rebuttal\<close>, \<open>opp_rebuttal\<close>,
  \<open>prop_closing\<close> and \<open>opp_closing\<close>, after which \<open>handlePhaseEnd\<close> sets
  \<open>debate_complete\<close>.  But a speech starts only in \<open>startPhase\<close>, which is called only from
  the \<open>onComplete\<close> of \<open>TransitionCountdown\<close>, and the page mounts that component without
  the \<open>isVisible\<close> it reads: it renders nothing and never calls \<open>onComplete\<close>.  So,
  whatever happens to a page from its first rendering on, its phase is one of \<open>loading\<close>,
  \<open>waiting_for_opponent\<close>, \<open>setup\<close> and \<open>prep\<close>, and its speech timer never runs.  On the
  sample run, in which the user skips the preparation and every button, timer and
  broadcast then comes in, the page is left in \<open>prep\<close> with the transition to
  \<open>prop_constructive\<close> pending, the countdown not counting and no \<open>phase_change\<close> sent.
\<close>

theorem no_speech_phase_is_entered:
  "(phase (run_room es (initial_page uid)) = Loading \<or>
    phase (run_room es (initial_page uid)) = Waiting_for_opponent \<or>
    phase (run_room es (initial_page uid)) = Setup \<or>
    phase (run_room es (initial_page uid)) = Prep) \<and>
   isTimerRunning (run_room es (initial_page uid)) = False \<and>
   phase (run_room ex_after_prep (initial_page ''alice'')) = Prep \<and>
   showTransition (run_room ex_after_prep (initial_page ''alice'')) = True \<and>
   nextPhaseAfterTransition (run_room ex_after_prep (initial_page ''alice''))
     = Some Prop_constructive \<and>
   cd_isCountingDown (run_room ex_after_prep (initial_page ''alice'')) = False \<and>
   sent (run_room ex_after_prep (initial_page ''alice'')) = [User_ready ''alice''] \<and>
   phase (startPhase Prop_constructive (run_room ex_after_prep (initial_page ''alice'')))
     = Prop_constructive \<and>
   getNextPhase Prop_constructive = Some Opp_constructive \<and>
   getNextPhase Opp_constructive = Some Prop_rebuttal \<and>
   getNextPhase Prop_rebuttal = Some Opp_rebuttal \<and>
   getNextPhase Opp_rebuttal = Some Prop_closing \<and>
   getNextPhase Prop_closing = Some Opp_closing \<and>
   getNextPhase Opp_closing = None \<and>
   phase (handlePhaseEnd (c\<lparr> phase := Opp_closing \<rparr>)) = Debate_complete"
proof -
  have "before_speeches (run_room es (initial_page uid))"
    by (rule before_speeches_run_room [OF before_speeches_initial_page])
  then have a: "phase (run_room es (initial_page uid)) = Loading \<or>
      phase (run_room es (initial_page uid)) = Waiting_for_opponent \<or>
      phase (run_room es (initial_page uid)) = Setup \<or>
      phase (run_room es (initial_page uid)) = Prep"
    and b: "isTimerRunning (run_room es (initial_page uid)) = False"
    by (simp_all add: before_speeches_def)
  have c: "phase (handlePhaseEnd (c\<lparr> phase := Opp_closing \<rparr>)) = Debate_complete"
    by (simp add: handlePhaseEnd_def getNextPhase_table)
  have d: "phase (run_room ex_after_prep (initial_page ''alice'')) = Prep"
    "showTransition (run_room ex_after_prep (initial_page ''alice'')) = True"
    "nextPhaseAfterTransition (run_room ex_after_prep (initial_page ''alice''))
       = Some Prop_constructive"
    "cd_isCountingDown (run_room ex_after_prep (initial_page ''alice'')) = False"
    "sent (run_room ex_after_prep (initial_page ''alice'')) = [User_ready ''alice'']"
    unfolding run_ex_after_prep by (simp_all add: initial_page_def)
  show ?thesis
    using a by (simp only: b c d getNextPhase_table phase_startPhase simp_thms)
qed

subsection \<open>The phase seen by the two participants\<close>

text \<open>
  Claim C5.  The phase is state of each page; a page changes it with \<open>setPhase\<close> and sends
  no request to the store for it.  Two users open the room with both participants
  connected, so both pages show \<open>setup\<close>.  When \<open>alice\<close> connects camera and microphone her
  page moves to \<open>prep\<close> and broadcasts \<open>user_ready\<close>.  Delivered to the page of \<open>bob\<close>, the
  broadcast leaves that page as it was, in \<open>setup\<close>; and so does every broadcast, a
  \<open>phase_change\<close> included: on any page, the phase after the delivery of broadcasts is
  the phase before it.
\<close>

theorem ready_page_is_not_followed:
  "phase (run_room ex_to_setup (initial_page ''alice'')) = Setup \<and>
   phase (run_room ex_to_setup (initial_page ''bob'')) = Setup \<and>
   phase (run_room ex_to_prep (initial_page ''alice'')) = Prep \<and>
   sent (run_room ex_to_prep (initial_page ''alice'')) = [User_ready ''alice''] \<and>
   deliver [User_ready ''alice''] (run_room ex_to_setup (initial_page ''bob''))
     = run_room ex_to_setup (initial_page ''bob'') \<and>
   phase (deliver [User_ready ''alice'', Phase_change ''alice'' Prep]
            (run_room ex_to_setup (initial_page ''bob''))) = Setup \<and>
   phase (deliver bs c) = phase c \<and>
   phase (room_step (Broadcast_received (Phase_change u p)) c) = phase c"
proof -
  have a: "deliver [User_ready ''alice''] (run_room ex_to_setup (initial_page ''bob''))
      = run_room ex_to_setup (initial_page ''bob'')"
    unfolding run_ex_to_setup
    by (simp add: deliver_def room_step_def on_broadcast_id remount_def
        initial_page_def Let_def)
  have b: "phase (room_step (Broadcast_received (Phase_change u p)) c) = phase c"
    by (simp add: room_step_def phase_remount)
  have s: "phase (run_room ex_to_setup (initial_page ''alice'')) = Setup"
    "phase (run_room ex_to_setup (initial_page ''bob'')) = Setup"
    "phase (run_room ex_to_prep (initial_page ''alice'')) = Prep"
    "sent (run_room ex_to_prep (initial_page ''alice'')) = [User_ready ''alice'']"
    unfolding run_ex_to_setup run_ex_to_prep by (simp_all add: initial_page_def)
  show ?thesis
    by (simp only: a b s phase_deliver simp_thms)
qed

end
